theory Spec2Isabelle
  imports Complex_Main "HOL-Library.Word" "HOL-Library.Sublist"
begin

section \<open>Python values\<close>

text \<open>
  A Python \<open>str\<close> is a sequence of Unicode code points; \<open>bytes\<close> is a sequence of
  octets. String literals of the source are written \<open>lit ''...''\<close>.
\<close>

type_synonym pystr = "nat list"
type_synonym bytes = "8 word list"

definition lit :: "string \<Rightarrow> pystr" where
  "lit s = map of_char s"

text \<open>
  The values \<open>response.json()\<close> can produce. A float is kept by its exact value
  (every finite double is a rational) or as one of the three non-finite values the
  \<open>json\<close> module accepts. A dict is an association list in insertion order, its
  keys distinct; a key is looked up with \<open>map_of\<close>.
\<close>

datatype pyfloat = Finite rat | PosInf | NegInf | NaN

datatype pyval =
    PNone
  | PBool bool
  | PInt int
  | PFloat pyfloat
  | PStr pystr
  | PList "pyval list"
  | PDict "(pystr \<times> pyval) list"

text \<open>
  The exceptions of the module. \<open>ValueError\<close> carries its message.
  \<open>FileNotFoundError\<close> carries the path its message names. \<open>RequestException\<close> is
  any \<open>requests.RequestException\<close> of the HTTP layer (connection failure, timeout,
  \<open>raise_for_status\<close>, undecodable JSON body). \<open>ProcessingError m d\<close> is
  \<open>Exception(f"OCR processing error: {m}. Details: {d}")\<close>, kept by the two
  interpolated values; \<open>PyException\<close> is a plain \<open>Exception\<close> with a constant
  message. \<open>AttributeError\<close> and \<open>TypeError\<close> are what Python raises when a method
  is called on, or a loop runs over, a value of the wrong type. \<open>OSError\<close> is a
  failure of \<open>open\<close> on a path that exists.
\<close>

datatype error =
    ValueError pystr
  | FileNotFoundError pystr
  | RequestException
  | ProcessingError pyval pyval
  | PyException pystr
  | AttributeError
  | TypeError
  | OSError

text \<open>\<open>bool(v)\<close>: the truth value Python gives \<open>v\<close> in \<open>if v\<close> and \<open>not v\<close>.\<close>

fun truthy :: "pyval \<Rightarrow> bool" where
  "truthy PNone = False"
| "truthy (PBool b) = b"
| "truthy (PInt i) = (i \<noteq> 0)"
| "truthy (PFloat f) = (f \<noteq> Finite 0)"
| "truthy (PStr s) = (s \<noteq> [])"
| "truthy (PList xs) = (xs \<noteq> [])"
| "truthy (PDict kvs) = (kvs \<noteq> [])"

text \<open>\<open>v == n\<close> for an int literal \<open>n\<close>: numbers compare by value, \<open>True\<close> is 1.\<close>

fun py_eq_int :: "pyval \<Rightarrow> int \<Rightarrow> bool" where
  "py_eq_int (PInt i) n = (i = n)"
| "py_eq_int (PBool b) n = ((if b then 1 else 0) = n)"
| "py_eq_int (PFloat (Finite q)) n = (q = of_int n)"
| "py_eq_int _ n = False"

text \<open>\<open>v.get(key, default)\<close>: only a dict has the method.\<close>

fun py_get :: "pyval \<Rightarrow> pystr \<Rightarrow> pyval \<Rightarrow> error + pyval" where
  "py_get (PDict kvs) k d = Inr (case map_of kvs k of None \<Rightarrow> d | Some v \<Rightarrow> v)"
| "py_get _ k d = Inl AttributeError"

text \<open>
  The elements a \<open>for\<close> loop (or \<open>enumerate\<close>) runs over: a list's items, a
  string's characters, a dict's keys.
\<close>

fun py_iter :: "pyval \<Rightarrow> error + pyval list" where
  "py_iter (PList xs) = Inr xs"
| "py_iter (PStr s) = Inr (map (\<lambda>c. PStr [c]) s)"
| "py_iter (PDict kvs) = Inr (map (\<lambda>kv. PStr (fst kv)) kvs)"
| "py_iter _ = Inl TypeError"

text \<open>
  \<open>str.isspace\<close> on one code point, the characters \<open>str.strip()\<close> removes.
\<close>

definition is_space :: "nat \<Rightarrow> bool" where
  "is_space c \<longleftrightarrow>
     (9 \<le> c \<and> c \<le> 13) \<or> (28 \<le> c \<and> c \<le> 32) \<or> c = 0x85 \<or> c = 0xA0 \<or> c = 0x1680 \<or>
     (0x2000 \<le> c \<and> c \<le> 0x200A) \<or> c = 0x2028 \<or> c = 0x2029 \<or> c = 0x202F \<or>
     c = 0x205F \<or> c = 0x3000"

definition strip :: "pystr \<Rightarrow> pystr" where
  "strip s = rev (dropWhile is_space (rev (dropWhile is_space s)))"

text \<open>\<open>v.strip()\<close>: only a string has the method.\<close>

fun py_strip :: "pyval \<Rightarrow> error + pystr" where
  "py_strip (PStr s) = Inr (strip s)"
| "py_strip _ = Inl AttributeError"

text \<open>\<open>sep.join(xs)\<close> for a list of strings.\<close>

fun join :: "pystr \<Rightarrow> pystr list \<Rightarrow> pystr" where
  "join sep [] = []"
| "join sep [x] = x"
| "join sep (x # y # ys) = x @ sep @ join sep (y # ys)"

section \<open>Text extraction\<close>

text \<open>
  The loop of \<open>extract_text\<close> over the pages, with the list \<open>texts\<close> it appends
  to. An exception leaves the loop and the function.
\<close>

fun extract_text_loop :: "pyval list \<Rightarrow> pystr list \<Rightarrow> error + pystr list" where
  "extract_text_loop [] texts = Inr texts"
| "extract_text_loop (result # rest) texts =
     (case py_get result (lit ''FileParseExitCode'') PNone of
        Inl e \<Rightarrow> Inl e
      | Inr code \<Rightarrow>
          if py_eq_int code 1 then
            (case py_get result (lit ''ParsedText'') (PStr []) of
               Inl e \<Rightarrow> Inl e
             | Inr t \<Rightarrow>
                 (case py_strip t of
                    Inl e \<Rightarrow> Inl e
                  | Inr text \<Rightarrow>
                      if text \<noteq> [] then extract_text_loop rest (texts @ [text])
                      else extract_text_loop rest texts))
          else extract_text_loop rest texts)"

definition extract_text :: "pyval \<Rightarrow> error + pystr" where
  "extract_text response_data =
     (case py_get response_data (lit ''ParsedResults'') (PList []) of
        Inl e \<Rightarrow> Inl e
      | Inr parsed_results \<Rightarrow>
          (case py_iter parsed_results of
             Inl e \<Rightarrow> Inl e
           | Inr results \<Rightarrow>
               (case extract_text_loop results [] of
                  Inl e \<Rightarrow> Inl e
                | Inr texts \<Rightarrow> Inr (join (lit ''\<newline>\<newline>'') texts))))"

section \<open>Words with positions\<close>

text \<open>
  One dict appended by \<open>extract_words_with_positions\<close>; the field \<open>w_page\<close> is
  the key \<open>'page'\<close>, and so on for \<open>'line'\<close>, \<open>'word_index'\<close>, \<open>'text'\<close>,
  \<open>'left'\<close>, \<open>'top'\<close>, \<open>'height'\<close> and \<open>'width'\<close>.
\<close>

record word_record =
  w_page :: int
  w_line :: int
  w_word_index :: int
  w_text :: pyval
  w_left :: pyval
  w_top :: pyval
  w_height :: pyval
  w_width :: pyval

text \<open>Sequencing of steps that may raise.\<close>

definition andthen :: "error + 'a \<Rightarrow> ('a \<Rightarrow> error + 'b) \<Rightarrow> error + 'b" where
  "andthen m f = (case m of Inl e \<Rightarrow> Inl e | Inr x \<Rightarrow> f x)"

text \<open>
  The three nested \<open>enumerate\<close> loops, innermost first, each with its 0-based
  counter and the list \<open>words_data\<close> it appends to.
\<close>

fun words_loop ::
  "nat \<Rightarrow> nat \<Rightarrow> nat \<Rightarrow> pyval list \<Rightarrow> word_record list \<Rightarrow> error + word_record list" where
  "words_loop page_idx line_idx word_idx [] words_data = Inr words_data"
| "words_loop page_idx line_idx word_idx (word # rest) words_data =
     andthen (py_get word (lit ''WordText'') (PStr [])) (\<lambda>text.
     andthen (py_get word (lit ''Left'') (PInt 0)) (\<lambda>left.
     andthen (py_get word (lit ''Top'') (PInt 0)) (\<lambda>top.
     andthen (py_get word (lit ''Height'') (PInt 0)) (\<lambda>height.
     andthen (py_get word (lit ''Width'') (PInt 0)) (\<lambda>width.
       words_loop page_idx line_idx (word_idx + 1) rest
         (words_data @
           [\<lparr>w_page = int page_idx + 1, w_line = int line_idx + 1,
             w_word_index = int word_idx + 1, w_text = text, w_left = left,
             w_top = top, w_height = height, w_width = width\<rparr>]))))))"

fun lines_loop ::
  "nat \<Rightarrow> nat \<Rightarrow> pyval list \<Rightarrow> word_record list \<Rightarrow> error + word_record list" where
  "lines_loop page_idx line_idx [] words_data = Inr words_data"
| "lines_loop page_idx line_idx (line # rest) words_data =
     andthen (py_get line (lit ''Words'') (PList [])) (\<lambda>words.
     andthen (py_iter words) (\<lambda>ws.
     andthen (words_loop page_idx line_idx 0 ws words_data) (\<lambda>words_data'.
       lines_loop page_idx (line_idx + 1) rest words_data')))"

fun pages_loop :: "nat \<Rightarrow> pyval list \<Rightarrow> word_record list \<Rightarrow> error + word_record list" where
  "pages_loop page_idx [] words_data = Inr words_data"
| "pages_loop page_idx (result # rest) words_data =
     andthen (py_get result (lit ''FileParseExitCode'') PNone) (\<lambda>code.
       if py_eq_int code 1 then
         andthen (py_get result (lit ''TextOverlay'') (PDict [])) (\<lambda>text_overlay.
         andthen (py_get text_overlay (lit ''Lines'') (PList [])) (\<lambda>lines.
         andthen (py_iter lines) (\<lambda>ls.
         andthen (lines_loop page_idx 0 ls words_data) (\<lambda>words_data'.
           pages_loop (page_idx + 1) rest words_data'))))
       else pages_loop (page_idx + 1) rest words_data)"

definition extract_words_with_positions :: "pyval \<Rightarrow> error + word_record list" where
  "extract_words_with_positions response_data =
     andthen (py_get response_data (lit ''ParsedResults'') (PList [])) (\<lambda>parsed_results.
     andthen (py_iter parsed_results) (\<lambda>results.
       pages_loop 0 results []))"

section \<open>The world outside the process\<close>

text \<open>
  What the process finds outside itself, and what it has done there.
  \<^item> \<open>fs w p\<close> is the entry the process finds at \<open>Path(p)\<close>, \<open>None\<close> when
    it finds none. For such a path \<open>stat_raises w p\<close> tells whether \<open>os.stat\<close>
    fails with an error other than the not-found ones (a name too long, a directory
    that may not be searched).
  \<^item> \<open>write_result w p data\<close> is what \<open>open(p, 'wb')\<close> followed by the write of
    \<open>data\<close> comes to: \<open>open\<close> raises, or the file is created and the write
    raises, leaving the bytes given, or all of \<open>data\<close> is written.
  \<^item> \<open>remote w req\<close> is what becomes of a request: the HTTP library raises before
    anything is sent (a URL it cannot use), or the request is sent and the call raises
    (no connection, timeout), or the remote side answers.
  \<^item> \<open>sent w\<close> are the requests sent so far, \<open>logs w\<close> the records logged so
    far. A log record is its level and the constant part of its message.
\<close>

datatype node = File bytes | Directory

datatype level = INFO | WARNING | ERROR

datatype request =
    HttpGet pystr "(pystr \<times> pystr) list" nat
  | HttpPost pystr "(pystr \<times> pystr) list" "(pystr \<times> bytes \<times> pystr) option" nat

fun request_url :: "request \<Rightarrow> pystr" where
  "request_url (HttpGet url params timeout) = url"
| "request_url (HttpPost url data files timeout) = url"

record http_response =
  status_code :: nat
  content :: bytes
  json_body :: "pyval option"

datatype outcome = Refused | NoAnswer | Answer http_response

datatype write_outcome = OpenFails | WriteFails bytes | Written

record world =
  fs :: "pystr \<Rightarrow> node option"
  stat_raises :: "pystr \<Rightarrow> bool"
  write_result :: "pystr \<Rightarrow> bytes \<Rightarrow> write_outcome"
  remote :: "request \<Rightarrow> outcome"
  sent :: "request list"
  logs :: "(level \<times> pystr) list"

definition log :: "level \<Rightarrow> pystr \<Rightarrow> world \<Rightarrow> world" where
  "log lv msg w = w\<lparr>logs := logs w @ [(lv, msg)]\<rparr>"

text \<open>
  \<open>str.lower()\<close> on the ASCII letters. Outside ASCII only U+212A lowers to an
  ASCII letter (\<open>k\<close>), which neither a key of the two extension tables nor
  \<open>https://\<close> contains, so the comparisons below come out as in the source.
\<close>

definition lower :: "pystr \<Rightarrow> pystr" where
  "lower s = map (\<lambda>c. if 65 \<le> c \<and> c \<le> 90 then c + 32 else c) s"

text \<open>
  A URL the HTTP library can send to: it strips leading white space, and it finds a
  connection adapter only for a URL that starts with \<open>http://\<close> or \<open>https://\<close>,
  in either case of the letters. Any other text is refused with an exception of the
  library (\<open>MissingSchema\<close>, \<open>InvalidSchema\<close>, \<open>InvalidURL\<close>) before anything
  is sent.
\<close>

definition has_http_scheme :: "pystr \<Rightarrow> bool" where
  "has_http_scheme url =
     (let u = lower (dropWhile is_space url)
      in take 7 u = lit ''http://'' \<or> take 8 u = lit ''https://'')"

text \<open>
  \<open>requests.get\<close> and \<open>requests.post\<close>: a request the library accepts is sent
  and recorded, and the remote side answers or the call raises.
\<close>

definition requests_send :: "request \<Rightarrow> world \<Rightarrow> (error + http_response) \<times> world" where
  "requests_send req w =
     (if \<not> has_http_scheme (request_url req) then (Inl RequestException, w)
      else
        (case remote w req of
           Refused \<Rightarrow> (Inl RequestException, w)
         | NoAnswer \<Rightarrow> (Inl RequestException, w\<lparr>sent := sent w @ [req]\<rparr>)
         | Answer resp \<Rightarrow> (Inr resp, w\<lparr>sent := sent w @ [req]\<rparr>)))"

text \<open>
  \<open>Path(p).exists()\<close>: \<open>False\<close> when \<open>os.stat\<close> reports that there is no
  such entry; any other failure of \<open>os.stat\<close> is raised (up to Python 3.12; from
  3.13 on it gives \<open>False\<close> too, which is a world where \<open>stat_raises\<close> is
  nowhere true).
\<close>

definition path_exists :: "world \<Rightarrow> pystr \<Rightarrow> error + bool" where
  "path_exists w p =
     (case fs w p of
        Some n \<Rightarrow> Inr True
      | None \<Rightarrow> if stat_raises w p then Inl OSError else Inr False)"

definition raise_for_status :: "http_response \<Rightarrow> error + unit" where
  "raise_for_status resp =
     (if 400 \<le> status_code resp \<and> status_code resp < 600 then Inl RequestException
      else Inr ())"

text \<open>
  \<open>response.json()\<close>: a body that is not JSON raises \<open>JSONDecodeError\<close> of
  \<open>requests\<close>, a \<open>RequestException\<close>.
\<close>

definition response_json :: "http_response \<Rightarrow> error + pyval" where
  "response_json resp =
     (case json_body resp of None \<Rightarrow> Inl RequestException | Some v \<Rightarrow> Inr v)"

section \<open>The client\<close>

text \<open>
  The class \<open>OCRSpaceAPI\<close>. Its methods \<open>_process_response\<close>,
  \<open>_ocr_from_url\<close>, \<open>_ocr_from_file\<close>, \<open>_ocr_from_base64\<close> and
  \<open>_get_content_type\<close> are written without the leading underscore. A method that
  sends or logs takes the world and returns its result with the new world.
\<close>

definition POST_ENDPOINT :: pystr where
  "POST_ENDPOINT = lit ''https://api.ocr.space/parse/image''"

definition GET_ENDPOINT :: pystr where
  "GET_ENDPOINT = lit ''https://api.ocr.space/parse/imageurl''"

definition LANGUAGES :: "(pystr \<times> pystr) list" where
  "LANGUAGES =
     [(lit ''ara'', lit ''Arabic''), (lit ''bul'', lit ''Bulgarian''),
      (lit ''chs'', lit ''Chinese Simplified''), (lit ''cht'', lit ''Chinese Traditional''),
      (lit ''hrv'', lit ''Croatian''), (lit ''cze'', lit ''Czech''),
      (lit ''dan'', lit ''Danish''), (lit ''dut'', lit ''Dutch''),
      (lit ''eng'', lit ''English''), (lit ''fin'', lit ''Finnish''),
      (lit ''fre'', lit ''French''), (lit ''ger'', lit ''German''),
      (lit ''gre'', lit ''Greek''), (lit ''hun'', lit ''Hungarian''),
      (lit ''kor'', lit ''Korean''), (lit ''ita'', lit ''Italian''),
      (lit ''jpn'', lit ''Japanese''), (lit ''pol'', lit ''Polish''),
      (lit ''por'', lit ''Portuguese''), (lit ''rus'', lit ''Russian''),
      (lit ''slv'', lit ''Slovenian''), (lit ''spa'', lit ''Spanish''),
      (lit ''swe'', lit ''Swedish''), (lit ''tha'', lit ''Thai''),
      (lit ''tur'', lit ''Turkish''), (lit ''ukr'', lit ''Ukrainian''),
      (lit ''vnm'', lit ''Vietnamese''), (lit ''auto'', lit ''Auto-detect (Engine 2 only)'')]"

record client =
  api_key :: pystr

text \<open>The keyword arguments of \<open>ocr_space\<close>, and their defaults.\<close>

record options =
  language :: pystr
  is_overlay_required :: bool
  filetype :: "pystr option"
  detect_orientation :: bool
  is_create_searchable_pdf :: bool
  is_searchable_pdf_hide_text_layer :: bool
  scale :: bool
  is_table :: bool
  ocr_engine :: int

definition default_options :: options where
  "default_options =
     \<lparr>language = lit ''eng'', is_overlay_required = False, filetype = None,
      detect_orientation = False, is_create_searchable_pdf = False,
      is_searchable_pdf_hide_text_layer = False, scale = False, is_table = False,
      ocr_engine = 1\<rparr>"

text \<open>
  \<open>_process_response\<close>. The f-strings format any value, so besides the three
  \<open>raise\<close> statements only \<open>get\<close> on a response that is not a dict can raise.
\<close>

definition process_response :: "pyval \<Rightarrow> world \<Rightarrow> (error + pyval) \<times> world" where
  "process_response response_data w =
     (case py_get response_data (lit ''IsErroredOnProcessing'') (PBool False) of
        Inl e \<Rightarrow> (Inl e, w)
      | Inr errored \<Rightarrow>
          if truthy errored then
            (case py_get response_data (lit ''ErrorMessage'') (PStr (lit ''Unknown error'')) of
               Inl e \<Rightarrow> (Inl e, w)
             | Inr error_msg \<Rightarrow>
                 (case py_get response_data (lit ''ErrorDetails'') (PStr []) of
                    Inl e \<Rightarrow> (Inl e, w)
                  | Inr error_details \<Rightarrow> (Inl (ProcessingError error_msg error_details), w)))
          else
            (case py_get response_data (lit ''OCRExitCode'') (PInt 0) of
               Inl e \<Rightarrow> (Inl e, w)
             | Inr ocr_exit_code \<Rightarrow>
                 if py_eq_int ocr_exit_code 3 then
                   (Inl (PyException (lit ''All OCR processing failed'')), w)
                 else if py_eq_int ocr_exit_code 4 then
                   (Inl (PyException (lit ''Fatal OCR error occurred'')), w)
                 else
                   (let w1 = (if py_eq_int ocr_exit_code 2
                              then log WARNING
                                     (lit ''Partial OCR success - some pages may have failed'') w
                              else w)
                    in case py_get response_data (lit ''ProcessingTimeInMilliseconds'')
                              (PStr (lit ''Unknown'')) of
                         Inl e \<Rightarrow> (Inl e, w1)
                       | Inr processing_time \<Rightarrow>
                           (Inr response_data,
                            log INFO (lit ''OCR completed in {processing_time}ms'') w1))))"

text \<open>
  The common tail of the three strategies: \<open>response.raise_for_status()\<close>, then
  \<open>self._process_response(response.json())\<close>.
\<close>

definition checked_json :: "(error + http_response) \<times> world \<Rightarrow> (error + pyval) \<times> world" where
  "checked_json rw =
     (case rw of
        (Inl e, w) \<Rightarrow> (Inl e, w)
      | (Inr response, w) \<Rightarrow>
          (case raise_for_status response of
             Inl e \<Rightarrow> (Inl e, w)
           | Inr _ \<Rightarrow>
               (case response_json response of
                  Inl e \<Rightarrow> (Inl e, w)
                | Inr response_data \<Rightarrow> process_response response_data w)))"

text \<open>\<open>_ocr_from_url\<close>: a GET with the URL added to the parameters.\<close>

definition ocr_from_url ::
  "pystr \<Rightarrow> (pystr \<times> pystr) list \<Rightarrow> world \<Rightarrow> (error + pyval) \<times> world" where
  "ocr_from_url url params w =
     (let params = params @ [(lit ''url'', url)];
          w = log INFO (lit ''Processing OCR from URL: {url}'') w
      in checked_json (requests_send (HttpGet GET_ENDPOINT params 60) w))"

text \<open>
  \<open>Path(p).name\<close> and \<open>Path(p).suffix\<close> on a POSIX path: the last component that
  is neither empty nor \<open>.\<close>, and that name from its last dot on when the dot is
  neither its first nor its last character.
\<close>

fun split_on :: "nat \<Rightarrow> pystr \<Rightarrow> pystr list" where
  "split_on d [] = [[]]"
| "split_on d (c # cs) =
     (if c = d then [] # split_on d cs
      else (case split_on d cs of [] \<Rightarrow> [[c]] | p # ps \<Rightarrow> (c # p) # ps))"

definition path_name :: "pystr \<Rightarrow> pystr" where
  "path_name p =
     (case filter (\<lambda>c. c \<noteq> [] \<and> c \<noteq> lit ''.'') (split_on 47 p) of
        [] \<Rightarrow> []
      | c # cs \<Rightarrow> last (c # cs))"

text \<open>
  \<open>str(Path(p))\<close>, the text the error messages name: the components joined with
  one slash each after the root, which is \<open>//\<close> for exactly two leading slashes
  and \<open>/\<close> for any other number of them; \<open>.\<close> when nothing is left.
\<close>

definition path_str :: "pystr \<Rightarrow> pystr" where
  "path_str p =
     (let parts = filter (\<lambda>c. c \<noteq> [] \<and> c \<noteq> lit ''.'') (split_on 47 p);
          root = (if take 2 p = lit ''//'' \<and> take 3 p \<noteq> lit ''///'' then lit ''//''
                  else if take 1 p = lit ''/'' then lit ''/'' else [])
      in if root = [] \<and> parts = [] then lit ''.'' else root @ join (lit ''/'') parts)"

definition path_suffix :: "pystr \<Rightarrow> pystr" where
  "path_suffix p =
     (let name = path_name p;
          after = rev (takeWhile (\<lambda>c. c \<noteq> 46) (rev name))
      in if 46 \<in> set name \<and> after \<noteq> [] \<and> length after + 1 < length name
         then 46 # after else [])"

text \<open>\<open>_get_content_type\<close>, and the table of \<open>image_to_base64\<close> further down.\<close>

definition get_content_type :: "pystr \<Rightarrow> pystr" where
  "get_content_type extension =
     (case map_of
        [(lit ''.jpg'', lit ''image/jpeg''), (lit ''.jpeg'', lit ''image/jpeg''),
         (lit ''.png'', lit ''image/png''), (lit ''.gif'', lit ''image/gif''),
         (lit ''.webp'', lit ''image/webp''), (lit ''.tiff'', lit ''image/tiff''),
         (lit ''.tif'', lit ''image/tiff''), (lit ''.pdf'', lit ''application/pdf'')]
        extension of
        None \<Rightarrow> lit ''application/octet-stream''
      | Some t \<Rightarrow> t)"

text \<open>
  \<open>_ocr_from_file\<close>. The existence check comes first and may itself raise; the
  \<open>FileNotFoundError\<close> names \<open>str(Path(file_path))\<close>. \<open>open\<close> raises on a
  directory; on a file the upload carries its name, its bytes and the content type.
\<close>

definition ocr_from_file ::
  "pystr \<Rightarrow> (pystr \<times> pystr) list \<Rightarrow> world \<Rightarrow> (error + pyval) \<times> world" where
  "ocr_from_file file_path params w =
     (case path_exists w file_path of
        Inl e \<Rightarrow> (Inl e, w)
      | Inr exists \<Rightarrow>
          if \<not> exists then (Inl (FileNotFoundError (path_str file_path)), w)
          else
            (let content_type = get_content_type (lower (path_suffix file_path));
                 w = log INFO (lit ''Processing OCR from file: {file_path} ({content_type})'') w
             in case fs w file_path of
                  Some (File data) \<Rightarrow>
                    checked_json
                      (requests_send
                         (HttpPost POST_ENDPOINT params
                            (Some (path_name file_path, data, content_type)) 120) w)
                | _ \<Rightarrow> (Inl OSError, w)))"

text \<open>
  \<open>_ocr_from_base64\<close>: \<open>startswith('data:')\<close> compares the first five
  characters; the payload is posted as the field \<open>base64Image\<close>.
\<close>

definition ocr_from_base64 ::
  "pystr \<Rightarrow> (pystr \<times> pystr) list \<Rightarrow> world \<Rightarrow> (error + pyval) \<times> world" where
  "ocr_from_base64 base64_string params w =
     (if take 5 base64_string \<noteq> lit ''data:'' then
        (Inl (ValueError (lit
           ''Base64 string must include data URI prefix (e.g., data:image/jpeg;base64,...)'')), w)
      else
        (let params = params @ [(lit ''base64Image'', base64_string)];
             w = log INFO (lit ''Processing OCR from base64 data'') w
         in checked_json (requests_send (HttpPost POST_ENDPOINT params None 120) w)))"

text \<open>\<open>str(b).lower()\<close> for a bool, and \<open>repr\<close> of a list of plain strings.\<close>

definition str_lower_bool :: "bool \<Rightarrow> pystr" where
  "str_lower_bool b = (if b then lit ''true'' else lit ''false'')"

definition repr_str_list :: "pystr list \<Rightarrow> pystr" where
  "repr_str_list xs = lit ''['' @ join (lit '', '') (map (\<lambda>x. [39] @ x @ [39]) xs) @ lit '']''"

text \<open>
  The \<open>try\<close> block of \<open>ocr_space\<close>: an exception of the strategy is logged and
  raised again.
\<close>

definition logged :: "(error + pyval) \<times> world \<Rightarrow> (error + pyval) \<times> world" where
  "logged rw =
     (case rw of
        (Inl e, w) \<Rightarrow>
          (Inl e,
           log ERROR (if e = RequestException then lit ''API request failed: {e}''
                      else lit ''OCR processing failed: {e}'') w)
      | (Inr v, w) \<Rightarrow> (Inr v, w))"

text \<open>
  The request parameters \<open>ocr_space\<close> prepares once its checks have passed;
  \<open>str(ocr_engine)\<close> is reached with 1 or 2 only.
\<close>

definition request_params :: "client \<Rightarrow> options \<Rightarrow> (pystr \<times> pystr) list" where
  "request_params self opts =
     (let params =
            [(lit ''apikey'', api_key self),
             (lit ''language'', language opts),
             (lit ''isOverlayRequired'', str_lower_bool (is_overlay_required opts)),
             (lit ''detectOrientation'', str_lower_bool (detect_orientation opts)),
             (lit ''isCreateSearchablePdf'', str_lower_bool (is_create_searchable_pdf opts)),
             (lit ''isSearchablePdfHideTextLayer'',
                str_lower_bool (is_searchable_pdf_hide_text_layer opts)),
             (lit ''scale'', str_lower_bool (scale opts)),
             (lit ''isTable'', str_lower_bool (is_table opts)),
             (lit ''OCREngine'', if ocr_engine opts = 1 then lit ''1'' else lit ''2'')]
      in case filetype opts of
           None \<Rightarrow> params
         | Some t \<Rightarrow> if t \<noteq> [] then params @ [(lit ''filetype'', t)] else params)"

text \<open>
  \<open>ocr_space\<close>. The four checks come first, in the order of the source; the
  message of the first one is \<open>input_type must be 'url', 'file', or 'base64'\<close>.
\<close>

definition ocr_space ::
  "client \<Rightarrow> pystr \<Rightarrow> pystr \<Rightarrow> options \<Rightarrow> world \<Rightarrow> (error + pyval) \<times> world" where
  "ocr_space self input_type input_value opts w =
     (if input_type \<notin> set [lit ''url'', lit ''file'', lit ''base64''] then
        (Inl (ValueError (lit ''input_type must be '' @ [39] @ lit ''url'' @ [39] @ lit '', '' @
                [39] @ lit ''file'' @ [39] @ lit '', or '' @ [39] @ lit ''base64'' @ [39])), w)
      else if language opts \<notin> set (map fst LANGUAGES) then
        (Inl (ValueError (lit ''Unsupported language: '' @ language opts @
                lit ''. Use one of: '' @ repr_str_list (map fst LANGUAGES))), w)
      else if ocr_engine opts \<notin> set [1, 2] then
        (Inl (ValueError (lit ''ocr_engine must be 1 or 2'')), w)
      else if language opts = lit ''auto'' \<and> ocr_engine opts \<noteq> 2 then
        (Inl (ValueError (lit ''Auto-detect language is only available with OCR Engine 2'')), w)
      else
        (let params = request_params self opts
         in logged
              (if input_type = lit ''url'' then ocr_from_url input_value params w
               else if input_type = lit ''file'' then ocr_from_file input_value params w
               else ocr_from_base64 input_value params w)))"

text \<open>
  \<open>download_searchable_pdf\<close>. Everything after the first \<open>return False\<close> runs in
  the \<open>try\<close> block, whose handler logs and returns \<open>False\<close>: \<open>requests.get\<close>
  refuses a value that is not a string, or a string it cannot send to, before anything
  is sent; the call or \<open>raise_for_status\<close> may raise; \<open>open(output_path, 'wb')\<close>
  may raise; and the write may raise after \<open>open\<close> has created the file. A
  successful write leaves the fetched bytes at \<open>output_path\<close>.
\<close>

definition download_searchable_pdf ::
  "pyval \<Rightarrow> pystr \<Rightarrow> world \<Rightarrow> (error + bool) \<times> world" where
  "download_searchable_pdf response_data output_path w =
     (case py_get response_data (lit ''SearchablePDFURL'') PNone of
        Inl e \<Rightarrow> (Inl e, w)
      | Inr pdf_url \<Rightarrow>
          if \<not> truthy pdf_url then
            (Inr False, log WARNING (lit ''No searchable PDF URL found in response'') w)
          else
            (let w = log INFO (lit ''Downloading searchable PDF from: {pdf_url}'') w;
                 failed = (\<lambda>w. (Inr False,
                             log ERROR (lit ''Failed to download searchable PDF: {e}'') w))
             in case pdf_url of
                  PStr u \<Rightarrow>
                    (case requests_send (HttpGet u [] 60) w of
                       (Inl e, w) \<Rightarrow> failed w
                     | (Inr pdf_response, w) \<Rightarrow>
                         (case raise_for_status pdf_response of
                            Inl e \<Rightarrow> failed w
                          | Inr _ \<Rightarrow>
                              (case write_result w output_path (content pdf_response) of
                                 OpenFails \<Rightarrow> failed w
                               | WriteFails left \<Rightarrow>
                                   failed (w\<lparr>fs := (fs w)(output_path \<mapsto> File left)\<rparr>)
                               | Written \<Rightarrow>
                                   (Inr True,
                                    log INFO (lit ''Searchable PDF saved to: {output_path}'')
                                      (w\<lparr>fs := (fs w)(output_path \<mapsto>
                                                      File (content pdf_response))\<rparr>)))))
                | _ \<Rightarrow> failed w))"

section \<open>Base64 data URIs\<close>

text \<open>
  \<open>base64.b64encode\<close> (RFC 4648, section 4): three octets give four characters of
  the alphabet, a last group of one or two octets is padded with \<open>=\<close>.
\<close>

definition b64_alphabet :: pystr where
  "b64_alphabet = lit ''ABCDEFGHIJKLMNOPQRSTUVWXYZabcdefghijklmnopqrstuvwxyz0123456789+/''"

definition b64_char :: "nat \<Rightarrow> nat" where
  "b64_char i = b64_alphabet ! i"

fun b64encode_octets :: "nat list \<Rightarrow> pystr" where
  "b64encode_octets [] = []"
| "b64encode_octets [a] =
     [b64_char (a div 4), b64_char ((a mod 4) * 16), 61, 61]"
| "b64encode_octets [a, b] =
     [b64_char (a div 4), b64_char ((a mod 4) * 16 + b div 16), b64_char ((b mod 16) * 4), 61]"
| "b64encode_octets (a # b # c # rest) =
     [b64_char (a div 4), b64_char ((a mod 4) * 16 + b div 16),
      b64_char ((b mod 16) * 4 + c div 64), b64_char (c mod 64)] @ b64encode_octets rest"

definition b64encode :: "bytes \<Rightarrow> pystr" where
  "b64encode data = b64encode_octets (map unat data)"

text \<open>
  The decoder of the round trip: what \<open>base64.b64decode\<close> returns on padded
  text over the alphabet. Any other text, which the encoder never produces, is
  \<open>None\<close> here.
\<close>

definition b64_index :: "nat \<Rightarrow> nat option" where
  "b64_index c =
     (if 65 \<le> c \<and> c \<le> 90 then Some (c - 65)
      else if 97 \<le> c \<and> c \<le> 122 then Some (c - 71)
      else if 48 \<le> c \<and> c \<le> 57 then Some (c + 4)
      else if c = 43 then Some 62
      else if c = 47 then Some 63
      else None)"

fun b64decode_octets :: "pystr \<Rightarrow> nat list option" where
  "b64decode_octets [] = Some []"
| "b64decode_octets (c0 # c1 # c2 # c3 # rest) =
     (case (b64_index c0, b64_index c1) of
        (Some s0, Some s1) \<Rightarrow>
          if c2 = 61 \<and> c3 = 61 \<and> rest = [] then Some [s0 * 4 + s1 div 16]
          else
            (case b64_index c2 of
               Some s2 \<Rightarrow>
                 if c3 = 61 \<and> rest = [] then
                   Some [s0 * 4 + s1 div 16, (s1 mod 16) * 16 + s2 div 4]
                 else
                   (case (b64_index c3, b64decode_octets rest) of
                      (Some s3, Some octets) \<Rightarrow>
                        Some ([s0 * 4 + s1 div 16, (s1 mod 16) * 16 + s2 div 4,
                               (s2 mod 4) * 64 + s3] @ octets)
                    | _ \<Rightarrow> None)
             | None \<Rightarrow> None)
      | _ \<Rightarrow> None)"
| "b64decode_octets _ = None"

definition b64decode :: "pystr \<Rightarrow> bytes option" where
  "b64decode s = map_option (map of_nat) (b64decode_octets s)"

text \<open>What is left of a data URI after its prefix, which ends at the first comma.\<close>

definition data_uri_payload :: "pystr \<Rightarrow> pystr" where
  "data_uri_payload uri = drop 1 (dropWhile (\<lambda>c. c \<noteq> 44) uri)"

definition mime_type_of :: "pystr \<Rightarrow> pystr" where
  "mime_type_of extension =
     (case map_of
        [(lit ''.jpg'', lit ''image/jpeg''), (lit ''.jpeg'', lit ''image/jpeg''),
         (lit ''.png'', lit ''image/png''), (lit ''.gif'', lit ''image/gif''),
         (lit ''.webp'', lit ''image/webp''), (lit ''.tiff'', lit ''image/tiff''),
         (lit ''.tif'', lit ''image/tiff'')]
        extension of
        None \<Rightarrow> lit ''image/jpeg''
      | Some t \<Rightarrow> t)"

definition image_to_base64 :: "pystr \<Rightarrow> world \<Rightarrow> error + pystr" where
  "image_to_base64 image_path w =
     (case path_exists w image_path of
        Inl e \<Rightarrow> Inl e
      | Inr exists \<Rightarrow>
          if \<not> exists then Inl (FileNotFoundError (path_str image_path))
          else
            (let extension = lower (path_suffix image_path);
                 mime_type = mime_type_of extension
             in case fs w image_path of
                  Some (File data) \<Rightarrow>
                    Inr (lit ''data:'' @ mime_type @ lit '';base64,'' @ b64encode data)
                | _ \<Rightarrow> Inl OSError))"

section \<open>Reading a response\<close>

text \<open>
  The fields of a response the properties speak about, read with the defaults of the
  source, and the shape the service documents for them: a field that is present has
  the type the extraction helpers call methods of.
\<close>

fun is_dict :: "pyval \<Rightarrow> bool" where
  "is_dict (PDict kvs) = True"
| "is_dict _ = False"

definition get_or :: "pyval \<Rightarrow> pystr \<Rightarrow> pyval \<Rightarrow> pyval" where
  "get_or v k d = (case py_get v k d of Inl e \<Rightarrow> d | Inr x \<Rightarrow> x)"

definition items :: "pyval \<Rightarrow> pyval list" where
  "items v = (case v of PList xs \<Rightarrow> xs | _ \<Rightarrow> [])"

fun is_list :: "pyval \<Rightarrow> bool" where
  "is_list (PList xs) = True"
| "is_list _ = False"

fun is_str :: "pyval \<Rightarrow> bool" where
  "is_str (PStr s) = True"
| "is_str _ = False"

definition pages_of :: "pyval \<Rightarrow> pyval list" where
  "pages_of response_data = items (get_or response_data (lit ''ParsedResults'') (PList []))"

definition page_success :: "pyval \<Rightarrow> bool" where
  "page_success result = py_eq_int (get_or result (lit ''FileParseExitCode'') PNone) 1"

definition page_text :: "pyval \<Rightarrow> pystr" where
  "page_text result =
     (case get_or result (lit ''ParsedText'') (PStr []) of PStr s \<Rightarrow> s | _ \<Rightarrow> [])"

definition page_lines :: "pyval \<Rightarrow> pyval list" where
  "page_lines result =
     items (get_or (get_or result (lit ''TextOverlay'') (PDict [])) (lit ''Lines'') (PList []))"

definition line_words :: "pyval \<Rightarrow> pyval list" where
  "line_words line = items (get_or line (lit ''Words'') (PList []))"

definition text_page_ok :: "pyval \<Rightarrow> bool" where
  "text_page_ok result \<longleftrightarrow>
     is_dict result \<and>
     (page_success result \<longrightarrow> is_str (get_or result (lit ''ParsedText'') (PStr [])))"

definition text_response_ok :: "pyval \<Rightarrow> bool" where
  "text_response_ok response_data \<longleftrightarrow>
     is_dict response_data \<and>
     is_list (get_or response_data (lit ''ParsedResults'') (PList [])) \<and>
     list_all text_page_ok (pages_of response_data)"

definition line_ok :: "pyval \<Rightarrow> bool" where
  "line_ok line \<longleftrightarrow>
     is_dict line \<and> is_list (get_or line (lit ''Words'') (PList [])) \<and>
     list_all is_dict (line_words line)"

definition overlay_page_ok :: "pyval \<Rightarrow> bool" where
  "overlay_page_ok result \<longleftrightarrow>
     is_dict result \<and>
     (page_success result \<longrightarrow>
        is_dict (get_or result (lit ''TextOverlay'') (PDict [])) \<and>
        is_list (get_or (get_or result (lit ''TextOverlay'') (PDict [])) (lit ''Lines'') (PList [])) \<and>
        list_all line_ok (page_lines result))"

definition overlay_response_ok :: "pyval \<Rightarrow> bool" where
  "overlay_response_ok response_data \<longleftrightarrow>
     is_dict response_data \<and>
     is_list (get_or response_data (lit ''ParsedResults'') (PList [])) \<and>
     list_all overlay_page_ok (pages_of response_data)"

text \<open>
  The text of the successful pages, trimmed, in page order; and the result of
  \<open>extractText\<close> as its description states it, every such text joined with a blank
  line.
\<close>

definition trimmed_texts :: "pyval list \<Rightarrow> pystr list" where
  "trimmed_texts results = map (\<lambda>r. strip (page_text r)) (filter page_success results)"

definition stated_extract_text :: "pyval \<Rightarrow> pystr" where
  "stated_extract_text response_data =
     join (lit ''\<newline>\<newline>'') (trimmed_texts (pages_of response_data))"

text \<open>
  The records of \<open>extractWords\<close> as its description states them: one for every word
  of every line of every successful page, with the 1-based position of the page among
  all pages, of the line in the page and of the word in the line, and with the
  word's own values, 0 for a geometry field it lacks.
\<close>

definition word_at :: "nat \<Rightarrow> nat \<Rightarrow> nat \<Rightarrow> pyval \<Rightarrow> word_record" where
  "word_at p l k word =
     \<lparr>w_page = int p + 1, w_line = int l + 1, w_word_index = int k + 1,
      w_text = get_or word (lit ''WordText'') (PStr []),
      w_left = get_or word (lit ''Left'') (PInt 0),
      w_top = get_or word (lit ''Top'') (PInt 0),
      w_height = get_or word (lit ''Height'') (PInt 0),
      w_width = get_or word (lit ''Width'') (PInt 0)\<rparr>"

definition words_of_line :: "nat \<Rightarrow> nat \<Rightarrow> pyval \<Rightarrow> word_record list" where
  "words_of_line p l line = map (\<lambda>(k, word). word_at p l k word) (enumerate 0 (line_words line))"

definition words_of_page :: "nat \<Rightarrow> pyval \<Rightarrow> word_record list" where
  "words_of_page p result =
     concat (map (\<lambda>(l, line). words_of_line p l line) (enumerate 0 (page_lines result)))"

definition words_of_pages :: "nat \<Rightarrow> pyval list \<Rightarrow> word_record list" where
  "words_of_pages n results =
     concat (map (\<lambda>(p, result). if page_success result then words_of_page p result else [])
               (enumerate n results))"

text \<open>
  What \<open>_process_response\<close> looks at: the error flag and the exit code of the
  service, and the errors it raises by a \<open>raise\<close> statement of its own.
\<close>

definition flagged :: "pyval \<Rightarrow> bool" where
  "flagged response_data \<longleftrightarrow>
     is_dict response_data \<and>
     truthy (get_or response_data (lit ''IsErroredOnProcessing'') (PBool False))"

definition exit_code_is :: "pyval \<Rightarrow> int \<Rightarrow> bool" where
  "exit_code_is response_data n \<longleftrightarrow>
     is_dict response_data \<and> py_eq_int (get_or response_data (lit ''OCRExitCode'') (PInt 0)) n"

fun is_processing_error :: "error + pyval \<Rightarrow> bool" where
  "is_processing_error (Inl (ProcessingError m d)) = True"
| "is_processing_error (Inl (PyException m)) = True"
| "is_processing_error _ = False"

text \<open>
  The four checks of \<open>ocr_space\<close> as one condition, and a payload that begins with
  a prefix of the form \<open>data:...;base64,\<close>.
\<close>

definition invalid_arguments :: "pystr \<Rightarrow> options \<Rightarrow> bool" where
  "invalid_arguments input_type opts \<longleftrightarrow>
     input_type \<notin> {lit ''url'', lit ''file'', lit ''base64''} \<or>
     language opts \<notin> set (map fst LANGUAGES) \<or>
     ocr_engine opts \<notin> {1, 2} \<or>
     (language opts = lit ''auto'' \<and> ocr_engine opts \<noteq> 2)"

fun contains :: "pystr \<Rightarrow> pystr \<Rightarrow> bool" where
  "contains pat [] = (pat = [])"
| "contains pat (c # cs) = (take (length pat) (c # cs) = pat \<or> contains pat cs)"


text \<open>The texts \<open>extract_text\<close> keeps: the trimmed texts that are not empty.\<close>

definition nonblank_texts :: "pyval list \<Rightarrow> pystr list" where
  "nonblank_texts results = filter (\<lambda>t. t \<noteq> []) (trimmed_texts results)"

section \<open>Examples\<close>

text \<open>Two successful pages with a failed page between them.\<close>

definition hello_world :: pyval where
  "hello_world =
     PDict [(lit ''ParsedResults'',
       PList [PDict [(lit ''FileParseExitCode'', PInt 1), (lit ''ParsedText'', PStr (lit ''Hello''))],
              PDict [(lit ''FileParseExitCode'', PInt 0), (lit ''ParsedText'', PStr (lit ''lost''))],
              PDict [(lit ''FileParseExitCode'', PInt 1), (lit ''ParsedText'', PStr (lit ''World''))]])]"

text \<open>Three successful pages, the second of them holding two spaces only.\<close>

definition blank_page_response :: pyval where
  "blank_page_response =
     PDict [(lit ''ParsedResults'',
       PList [PDict [(lit ''FileParseExitCode'', PInt 1), (lit ''ParsedText'', PStr (lit ''A''))],
              PDict [(lit ''FileParseExitCode'', PInt 1), (lit ''ParsedText'', PStr (lit ''  ''))],
              PDict [(lit ''FileParseExitCode'', PInt 1), (lit ''ParsedText'', PStr (lit ''B''))]])]"

text \<open>One successful page whose text has three empty lines between two letters.\<close>

definition blank_lines_response :: pyval where
  "blank_lines_response =
     PDict [(lit ''ParsedResults'',
       PList [PDict [(lit ''FileParseExitCode'', PInt 1),
                     (lit ''ParsedText'', PStr (lit ''a\<newline>\<newline>\<newline>\<newline>b''))]])]"

text \<open>
  One successful page with one line of two words; the second word has a fractional
  \<open>Left\<close> and no \<open>Width\<close>.
\<close>

definition two_words_response :: pyval where
  "two_words_response =
     PDict [(lit ''ParsedResults'',
       PList [PDict [(lit ''FileParseExitCode'', PInt 1),
                     (lit ''ParsedText'', PStr (lit ''Hello World'')),
                     (lit ''TextOverlay'',
                      PDict [(lit ''Lines'',
                        PList [PDict [(lit ''Words'',
                          PList [PDict [(lit ''WordText'', PStr (lit ''Hello'')),
                                        (lit ''Left'', PInt 10), (lit ''Top'', PInt 20),
                                        (lit ''Height'', PInt 30), (lit ''Width'', PInt 40)],
                                 PDict [(lit ''WordText'', PStr (lit ''World'')),
                                        (lit ''Left'', PFloat (Finite (121 / 2))),
                                        (lit ''Top'', PInt 20),
                                        (lit ''Height'', PInt 30)]])]])])]])]"

text \<open>One successful page of a call that did not ask for the overlay.\<close>

definition no_overlay_response :: pyval where
  "no_overlay_response =
     PDict [(lit ''ParsedResults'',
       PList [PDict [(lit ''FileParseExitCode'', PInt 1),
                     (lit ''ParsedText'', PStr (lit ''Hello World''))]])]"


text \<open>
  A client with the demo key, and a world with no files in which the two endpoints
  answer every request with status 200 and the JSON body \<open>{}\<close>, and nothing else
  answers.
\<close>

definition demo_client :: client where
  "demo_client = \<lparr>api_key = lit ''helloworld''\<rparr>"

definition empty_reply :: http_response where
  "empty_reply = \<lparr>status_code = 200, content = [], json_body = Some (PDict [])\<rparr>"

definition quiet_world :: world where
  "quiet_world =
     \<lparr>fs = (\<lambda>p. None), stat_raises = (\<lambda>p. False),
      write_result = (\<lambda>p data. Written),
      remote = (\<lambda>req. if request_url req = POST_ENDPOINT \<or> request_url req = GET_ENDPOINT
                      then Answer empty_reply else NoAnswer),
      sent = [], logs = []\<rparr>"

text \<open>
  A response the service flags as failed, and responses that carry an exit code and
  no flag.
\<close>

definition errored_response :: pyval where
  "errored_response =
     PDict [(lit ''OCRExitCode'', PInt 99),
            (lit ''IsErroredOnProcessing'', PBool True),
            (lit ''ErrorMessage'', PList [PStr (lit ''Unable to recognize the file type'')]),
            (lit ''ErrorDetails'', PStr (lit ''E216''))]"

definition exit_code_response :: "int \<Rightarrow> pyval" where
  "exit_code_response n =
     PDict [(lit ''OCRExitCode'', PInt n), (lit ''IsErroredOnProcessing'', PBool False)]"

text \<open>
  A response with the URL of a searchable PDF, a world in which that URL is answered
  with status 200 and the four bytes \<open>%PDF\<close>, and a response whose URL field holds
  text that is no URL.
\<close>

definition pdf_reply :: http_response where
  "pdf_reply = \<lparr>status_code = 200, content = [0x25, 0x50, 0x44, 0x46], json_body = None\<rparr>"

definition pdf_world :: world where
  "pdf_world =
     quiet_world\<lparr>remote := (\<lambda>req. if request_url req = lit ''https://x/a.pdf''
                                  then Answer pdf_reply else NoAnswer)\<rparr>"

definition no_url_response :: pyval where
  "no_url_response = PDict [(lit ''SearchablePDFURL'', PStr (lit ''not a url''))]"

definition pdf_response :: pyval where
  "pdf_response = PDict [(lit ''SearchablePDFURL'', PStr (lit ''https://x/a.pdf''))]"

text \<open>A world whose only file holds the first four bytes of a PNG image.\<close>

definition png_world :: world where
  "png_world =
     quiet_world\<lparr>fs := (\<lambda>p. if p = lit ''scans/page.PNG''
                              then Some (File [0x89, 0x50, 0x4E, 0x47]) else None)\<rparr>"

text \<open>
  A successful page whose \<open>TextOverlay\<close> is \<open>null\<close>, and the response of that
  one page.
\<close>

definition null_overlay_page :: pyval where
  "null_overlay_page =
     PDict [(lit ''FileParseExitCode'', PInt 1), (lit ''ParsedText'', PStr (lit ''Hello'')),
            (lit ''TextOverlay'', PNone)]"

definition null_overlay_response :: pyval where
  "null_overlay_response = PDict [(lit ''ParsedResults'', PList [null_overlay_page])]"

text \<open>
  A file name of 304 characters, and a world without files in which \<open>os.stat\<close>
  fails on a path longer than 255 characters with an error that is not a not-found one.
\<close>

definition long_name :: pystr where
  "long_name = replicate 300 97 @ lit ''.png''"

definition long_name_world :: world where
  "long_name_world = quiet_world\<lparr>stat_raises := (\<lambda>p. 255 < length p)\<rparr>"

section \<open>Properties of the text extraction\<close>

lemma lit_eq_iff [simp]: "lit s = lit t \<longleftrightarrow> s = t"
  unfolding lit_def by (simp add: inj_map_eq_map inj_of_char)

lemma lit_Nil [simp]: "lit [] = []"
  by (simp add: lit_def)

lemma get_or_dict [simp]:
  "get_or (PDict kvs) k d = (case map_of kvs k of None \<Rightarrow> d | Some v \<Rightarrow> v)"
  by (simp add: get_or_def)

lemma py_get_get_or: "is_dict v \<Longrightarrow> py_get v k d = Inr (get_or v k d)"
  by (cases v) simp_all

lemma py_strip_str: "is_str v \<Longrightarrow> py_strip v = Inr (strip (case v of PStr s \<Rightarrow> s | _ \<Rightarrow> []))"
  by (cases v) simp_all

lemma py_iter_list: "is_list v \<Longrightarrow> py_iter v = Inr (items v)"
  by (cases v) (simp_all add: items_def)

lemma text_loop_ok:
  "list_all text_page_ok rs \<Longrightarrow> extract_text_loop rs acc = Inr (acc @ nonblank_texts rs)"
proof (induction rs arbitrary: acc)
  case Nil
  then show ?case by (simp add: nonblank_texts_def trimmed_texts_def)
next
  case (Cons r rs)
  then have okr: "text_page_ok r" and rest: "list_all text_page_ok rs"
    by simp_all
  from okr have d: "is_dict r"
    by (simp add: text_page_ok_def)
  show ?case
  proof (cases "page_success r")
    case True
    with okr have s: "is_str (get_or r (lit ''ParsedText'') (PStr []))"
      by (simp add: text_page_ok_def)
    from True d s show ?thesis
      using Cons.IH [OF rest]
      by (simp add: py_get_get_or py_strip_str page_success_def nonblank_texts_def
          trimmed_texts_def page_text_def)
  next
    case False
    with d show ?thesis
      using Cons.IH [OF rest]
      by (simp add: py_get_get_or page_success_def nonblank_texts_def trimmed_texts_def)
  qed
qed

lemma extract_text_ok:
  "text_response_ok r \<Longrightarrow>
   extract_text r = Inr (join (lit ''\<newline>\<newline>'') (nonblank_texts (pages_of r)))"
  by (simp add: text_response_ok_def extract_text_def py_get_get_or py_iter_list text_loop_ok
      pages_of_def)

text \<open>
  C3, as stated: \<open>extract_text\<close> joins the trimmed text of every successful page.
  It does not where a successful page holds white space only: the page is dropped, and
  so is the separator the joined text would have for it.
\<close>

theorem extract_text_blank_page_counterexample:
  "text_response_ok blank_page_response \<and>
   extract_text blank_page_response = Inr (lit ''A\<newline>\<newline>B'') \<and>
   stated_extract_text blank_page_response = lit ''A\<newline>\<newline>\<newline>\<newline>B'' \<and>
   extract_text blank_page_response \<noteq> Inr (stated_extract_text blank_page_response)"
  by (simp add: blank_page_response_def text_response_ok_def text_page_ok_def pages_of_def
      items_def page_success_def extract_text_def stated_extract_text_def trimmed_texts_def
      page_text_def strip_def is_space_def lit_def)

text \<open>
  C3, amended: on a response whose pages are dicts and whose successful pages hold a
  string (or no text at all), \<open>extract_text\<close> returns, joined with a blank line and
  in page order, the trimmed text of every successful page whose trimmed text is not
  empty; failed pages are skipped. The response of two successful pages \<open>Hello\<close> and
  \<open>World\<close> and one failed page gives \<open>Hello\<close>, a blank line, \<open>World\<close>.
\<close>

theorem extract_text_joins_nonblank_pages:
  "text_response_ok r \<Longrightarrow>
   extract_text r =
     Inr (join (lit ''\<newline>\<newline>'')
            (filter (\<lambda>t. t \<noteq> [])
               (map (\<lambda>p. strip (page_text p)) (filter page_success (pages_of r)))))"
  using extract_text_ok [of r] by (simp add: nonblank_texts_def trimmed_texts_def)

theorem extract_text_hello_world_witness:
  "text_response_ok hello_world \<and>
   extract_text hello_world = Inr (lit ''Hello\<newline>\<newline>World'')"
proof -
  have ok: "text_response_ok hello_world"
    by (simp add: hello_world_def text_response_ok_def text_page_ok_def pages_of_def items_def
        page_success_def)
  have "join (lit ''\<newline>\<newline>'')
          (filter (\<lambda>t. t \<noteq> [])
             (map (\<lambda>p. strip (page_text p)) (filter page_success (pages_of hello_world))))
        = lit ''Hello\<newline>\<newline>World''"
    by (simp add: hello_world_def pages_of_def items_def page_success_def page_text_def
        strip_def is_space_def lit_def)
  with ok extract_text_joins_nonblank_pages [OF ok] show ?thesis by simp
qed

lemma strip_ends:
  assumes "strip s \<noteq> []"
  shows "\<not> is_space (hd (strip s))" and "\<not> is_space (last (strip s))"
proof -
  define ys where "ys = dropWhile is_space s"
  define zs where "zs = dropWhile is_space (rev ys)"
  have st: "strip s = rev zs" by (simp add: strip_def ys_def zs_def)
  with assms have zs: "zs \<noteq> []" by simp
  then have "\<not> is_space (hd zs)" unfolding zs_def by (rule hd_dropWhile)
  with zs show "\<not> is_space (last (strip s))" by (simp add: st last_rev)
  from zs have ys: "ys \<noteq> []" by (auto simp: zs_def)
  then have h: "\<not> is_space (hd ys)" unfolding ys_def by (rule hd_dropWhile)
  have "zs = drop (length (takeWhile is_space (rev ys))) (rev ys)"
    by (simp add: zs_def dropWhile_eq_drop)
  then have "rev zs = take (length ys - length (takeWhile is_space (rev ys))) ys"
    by (simp add: rev_drop)
  moreover from zs have "rev zs \<noteq> []" by simp
  ultimately have "hd (rev zs) = hd ys"
    by (metis hd_take take_eq_Nil2 neq0_conv)
  with h show "\<not> is_space (hd (strip s))" by (simp add: st)
qed

lemma join_ends:
  assumes "texts \<noteq> []" and "\<forall>t\<in>set texts. t \<noteq> []"
  shows "join sep texts \<noteq> []" and "hd (join sep texts) = hd (hd texts)"
    and "last (join sep texts) = last (last texts)"
  using assms by (induction sep texts rule: join.induct) auto

lemma nonblank_texts_ends:
  "t \<in> set (nonblank_texts rs) \<Longrightarrow> t \<noteq> [] \<and> \<not> is_space (hd t) \<and> \<not> is_space (last t)"
  by (auto simp: nonblank_texts_def trimmed_texts_def strip_ends)

lemma join_no_space_ends:
  assumes "\<forall>t\<in>set texts. t \<noteq> [] \<and> \<not> is_space (hd t) \<and> \<not> is_space (last t)"
    and "join sep texts \<noteq> []"
  shows "\<not> is_space (hd (join sep texts))" and "\<not> is_space (last (join sep texts))"
proof -
  from assms(2) have ne: "texts \<noteq> []" by auto
  then have "hd texts \<in> set texts" and "last texts \<in> set texts" by simp_all
  with assms(1) ne show "\<not> is_space (hd (join sep texts))" "\<not> is_space (last (join sep texts))"
    by (simp_all add: join_ends)
qed

lemma sep_not_at_ends:
  assumes "out \<noteq> [] \<longrightarrow> \<not> is_space (hd out) \<and> \<not> is_space (last out)"
  shows "\<not> prefix (lit ''\<newline>\<newline>'') out" and "\<not> suffix (lit ''\<newline>\<newline>'') out"
proof -
  have sp: "is_space 10" by (simp add: is_space_def)
  show "\<not> prefix (lit ''\<newline>\<newline>'') out"
  proof
    assume "prefix (lit ''\<newline>\<newline>'') out"
    then obtain zs where "out = [10, 10] @ zs" by (auto simp: prefix_def lit_def)
    with assms sp show False by simp
  qed
  show "\<not> suffix (lit ''\<newline>\<newline>'') out"
  proof
    assume "suffix (lit ''\<newline>\<newline>'') out"
    then obtain zs where "out = zs @ [10, 10]" by (auto simp: suffix_def lit_def)
    with assms sp show False by simp
  qed
qed

text \<open>
  C10, amended: \<open>extract_text\<close> produces no empty segment. The segments it joins
  are the trimmed texts of the successful pages that are not empty, so a successful
  page of white space contributes nothing, not even a separator; every segment begins
  and ends with a character that is not white space, and the result neither begins nor
  ends with the separator. A separator inside the text of a page is kept as it is.
\<close>

theorem extract_text_no_empty_segment:
  "text_response_ok r \<Longrightarrow>
   (\<exists>texts. texts = filter (\<lambda>t. t \<noteq> []) (trimmed_texts (pages_of r)) \<and>
      extract_text r = Inr (join (lit ''\<newline>\<newline>'') texts) \<and>
      (\<forall>t\<in>set texts. t \<noteq> [] \<and> \<not> is_space (hd t) \<and> \<not> is_space (last t)) \<and>
      \<not> prefix (lit ''\<newline>\<newline>'') (join (lit ''\<newline>\<newline>'') texts) \<and>
      \<not> suffix (lit ''\<newline>\<newline>'') (join (lit ''\<newline>\<newline>'') texts))"
proof -
  assume ok: "text_response_ok r"
  let ?texts = "nonblank_texts (pages_of r)"
  let ?out = "join (lit ''\<newline>\<newline>'') ?texts"
  have ends: "\<forall>t\<in>set ?texts. t \<noteq> [] \<and> \<not> is_space (hd t) \<and> \<not> is_space (last t)"
    using nonblank_texts_ends by blast
  then have "?out \<noteq> [] \<longrightarrow> \<not> is_space (hd ?out) \<and> \<not> is_space (last ?out)"
    using join_no_space_ends by blast
  then have "\<not> prefix (lit ''\<newline>\<newline>'') ?out" and "\<not> suffix (lit ''\<newline>\<newline>'') ?out"
    by (rule sep_not_at_ends)+
  with ends extract_text_ok [OF ok] show ?thesis
    by (simp add: nonblank_texts_def)
qed

text \<open>
  C10, as stated: the result never contains more than one consecutive separator. It
  does when the text of a page holds empty lines of its own, which \<open>strip\<close> leaves
  in place.
\<close>

theorem extract_text_blank_lines_counterexample:
  "text_response_ok blank_lines_response \<and>
   extract_text blank_lines_response = Inr (lit ''a\<newline>\<newline>\<newline>\<newline>b'') \<and>
   contains (lit ''\<newline>\<newline>'' @ lit ''\<newline>\<newline>'') (lit ''a\<newline>\<newline>\<newline>\<newline>b'')"
  by (simp add: blank_lines_response_def text_response_ok_def text_page_ok_def pages_of_def
      items_def page_success_def extract_text_def strip_def is_space_def lit_def)

theorem extract_text_no_empty_segment_witness:
  "text_response_ok blank_page_response \<and>
   extract_text blank_page_response = Inr (lit ''A\<newline>\<newline>B'') \<and>
   \<not> prefix (lit ''\<newline>\<newline>'') (lit ''A\<newline>\<newline>B'') \<and>
   \<not> suffix (lit ''\<newline>\<newline>'') (lit ''A\<newline>\<newline>B'')"
proof -
  have ok: "text_response_ok blank_page_response"
    by (simp add: blank_page_response_def text_response_ok_def text_page_ok_def pages_of_def
        items_def page_success_def)
  have "filter (\<lambda>t. t \<noteq> []) (trimmed_texts (pages_of blank_page_response)) = [lit ''A'', lit ''B'']"
    by (simp add: blank_page_response_def pages_of_def items_def trimmed_texts_def
        page_success_def page_text_def strip_def is_space_def lit_def)
  moreover have "join (lit ''\<newline>\<newline>'') [lit ''A'', lit ''B''] = lit ''A\<newline>\<newline>B''"
    by (simp add: lit_def)
  ultimately show ?thesis
    using ok extract_text_no_empty_segment [OF ok] by simp
qed

section \<open>Properties of the word extraction\<close>

lemma andthen_simps [simp]: "andthen (Inr x) f = f x" "andthen (Inl e) f = Inl e"
  by (simp_all add: andthen_def)

lemma words_loop_ok:
  "list_all is_dict ws \<Longrightarrow>
   words_loop p l k ws acc = Inr (acc @ map (\<lambda>(j, w). word_at p l j w) (enumerate k ws))"
  by (induction ws arbitrary: k acc) (simp_all add: py_get_get_or word_at_def)

lemma lines_loop_ok:
  "list_all line_ok ls \<Longrightarrow>
   lines_loop p l ls acc =
     Inr (acc @ concat (map (\<lambda>(j, line). words_of_line p j line) (enumerate l ls)))"
proof (induction ls arbitrary: l acc)
  case Nil
  then show ?case by simp
next
  case (Cons x ls)
  then have x: "line_ok x" and rest: "list_all line_ok ls" by simp_all
  from x show ?case
    using Cons.IH [OF rest]
    by (simp add: line_ok_def py_get_get_or py_iter_list words_loop_ok words_of_line_def
        line_words_def)
qed

lemma words_of_pages_Cons:
  "words_of_pages n (r # rs) =
     (if page_success r then words_of_page n r else []) @ words_of_pages (Suc n) rs"
  by (simp add: words_of_pages_def)

lemma words_of_pages_Nil [simp]: "words_of_pages n [] = []"
  by (simp add: words_of_pages_def)

lemma pages_loop_ok:
  "list_all overlay_page_ok rs \<Longrightarrow> pages_loop n rs acc = Inr (acc @ words_of_pages n rs)"
proof (induction rs arbitrary: n acc)
  case Nil
  then show ?case by simp
next
  case (Cons r rs)
  then have r: "overlay_page_ok r" and rest: "list_all overlay_page_ok rs" by simp_all
  from r have d: "is_dict r" by (simp add: overlay_page_ok_def)
  show ?case
  proof (cases "page_success r")
    case True
    with r have "is_dict (get_or r (lit ''TextOverlay'') (PDict []))"
      and "is_list (get_or (get_or r (lit ''TextOverlay'') (PDict [])) (lit ''Lines'') (PList []))"
      and "list_all line_ok (page_lines r)"
      by (simp_all add: overlay_page_ok_def)
    with True d show ?thesis
      using Cons.IH [OF rest]
      by (simp add: py_get_get_or py_iter_list lines_loop_ok words_of_pages_Cons
          words_of_page_def page_lines_def page_success_def)
  next
    case False
    with d show ?thesis
      using Cons.IH [OF rest]
      by (simp add: py_get_get_or words_of_pages_Cons page_success_def)
  qed
qed

lemma extract_words_ok:
  "overlay_response_ok r \<Longrightarrow>
   extract_words_with_positions r = Inr (words_of_pages 0 (pages_of r))"
  by (simp add: overlay_response_ok_def extract_words_with_positions_def py_get_get_or
      py_iter_list pages_loop_ok pages_of_def)

lemma words_of_pages_no_lines:
  "\<forall>p\<in>set rs. page_success p \<longrightarrow> page_lines p = [] \<Longrightarrow> words_of_pages n rs = []"
  by (induction rs arbitrary: n) (simp_all add: words_of_pages_Cons words_of_page_def)

text \<open>
  C4, amended: on a response whose pages, overlays, lines and words are the objects
  and lists the service documents (any of the fields may be missing),
  \<open>extract_words_with_positions\<close> returns one record for every word of every line
  of every successful page, in order, with the 1-based page, line and word positions,
  the word's text and its four geometry values, 0 for a missing one; when no
  successful page has overlay lines it returns the empty list and raises nothing.
\<close>

theorem extract_words_every_word:
  "overlay_response_ok r \<Longrightarrow>
   extract_words_with_positions r = Inr (words_of_pages 0 (pages_of r)) \<and>
   ((\<forall>p\<in>set (pages_of r). page_success p \<longrightarrow> page_lines p = []) \<longrightarrow>
      extract_words_with_positions r = Inr [])"
  by (simp add: extract_words_ok words_of_pages_no_lines)






lemmas response_evals =
  text_response_ok_def text_page_ok_def overlay_response_ok_def overlay_page_ok_def line_ok_def
  pages_of_def items_def page_success_def page_text_def page_lines_def line_words_def
  words_of_pages_def words_of_page_def words_of_line_def word_at_def

theorem extract_words_every_word_witness:
  "overlay_response_ok two_words_response \<and>
   extract_words_with_positions two_words_response =
     Inr [\<lparr>w_page = 1, w_line = 1, w_word_index = 1, w_text = PStr (lit ''Hello''),
           w_left = PInt 10, w_top = PInt 20, w_height = PInt 30, w_width = PInt 40\<rparr>,
          \<lparr>w_page = 1, w_line = 1, w_word_index = 2, w_text = PStr (lit ''World''),
           w_left = PFloat (Finite (121 / 2)), w_top = PInt 20, w_height = PInt 30,
           w_width = PInt 0\<rparr>] \<and>
   overlay_response_ok no_overlay_response \<and>
   extract_words_with_positions no_overlay_response = Inr []"
proof -
  have ok: "overlay_response_ok two_words_response"
    by (simp add: two_words_response_def response_evals)
  have ok': "overlay_response_ok no_overlay_response"
    by (simp add: no_overlay_response_def response_evals)
  have none: "\<forall>p\<in>set (pages_of no_overlay_response). page_success p \<longrightarrow> page_lines p = []"
    by (simp add: no_overlay_response_def response_evals)
  have "words_of_pages 0 (pages_of two_words_response) =
     [\<lparr>w_page = 1, w_line = 1, w_word_index = 1, w_text = PStr (lit ''Hello''),
           w_left = PInt 10, w_top = PInt 20, w_height = PInt 30, w_width = PInt 40\<rparr>,
          \<lparr>w_page = 1, w_line = 1, w_word_index = 2, w_text = PStr (lit ''World''),
           w_left = PFloat (Finite (121 / 2)), w_top = PInt 20, w_height = PInt 30,
           w_width = PInt 0\<rparr>]"
    by (simp add: two_words_response_def response_evals)
  then have two: "extract_words_with_positions two_words_response =
     Inr [\<lparr>w_page = 1, w_line = 1, w_word_index = 1, w_text = PStr (lit ''Hello''),
           w_left = PInt 10, w_top = PInt 20, w_height = PInt 30, w_width = PInt 40\<rparr>,
          \<lparr>w_page = 1, w_line = 1, w_word_index = 2, w_text = PStr (lit ''World''),
           w_left = PFloat (Finite (121 / 2)), w_top = PInt 20, w_height = PInt 30,
           w_width = PInt 0\<rparr>]"
    using extract_words_every_word [OF ok] by simp
  have "extract_words_with_positions no_overlay_response = Inr []"
    using extract_words_every_word [OF ok'] none by blast
  with ok ok' two show ?thesis by blast
qed

text \<open>
  C4, as stated: on every response without overlay data the result is the empty
  list and nothing is raised. A successful page whose \<open>TextOverlay\<close> is \<open>null\<close>
  has no overlay lines, and \<open>text_overlay.get\<close> raises \<open>AttributeError\<close> on it.
\<close>

theorem null_overlay_counterexample:
  "pages_of null_overlay_response = [null_overlay_page] \<and>
   page_success null_overlay_page \<and>
   page_lines null_overlay_page = [] \<and>
   extract_words_with_positions null_overlay_response = Inl AttributeError"
  by (simp add: null_overlay_response_def null_overlay_page_def pages_of_def items_def
      page_success_def page_lines_def get_or_def extract_words_with_positions_def)


section \<open>Properties of the client\<close>

lemma py_get_error: "py_get v k d = Inl e \<Longrightarrow> e = AttributeError"
  by (cases v) simp_all

lemma process_response_no_ValueError: "fst (process_response v w) \<noteq> Inl (ValueError m)"
  by (auto simp: process_response_def Let_def split: sum.splits dest: py_get_error)

lemma checked_json_no_ValueError:
  "fst (checked_json (requests_send req w)) \<noteq> Inl (ValueError m)"
  using process_response_no_ValueError
  by (auto simp: checked_json_def requests_send_def raise_for_status_def response_json_def
      split: sum.splits option.splits prod.splits outcome.splits)

lemma fst_logged [simp]: "fst (logged rw) = fst rw"
  by (auto simp: logged_def split: prod.splits sum.splits)

lemma sent_log [simp]: "sent (log lv msg w) = sent w"
  by (simp add: log_def)

lemma fs_log [simp]: "fs (log lv msg w) = fs w"
  by (simp add: log_def)

lemma remote_log [simp]: "remote (log lv msg w) = remote w"
  by (simp add: log_def)

lemma write_result_log [simp]: "write_result (log lv msg w) = write_result w"
  by (simp add: log_def)

lemma stat_raises_log [simp]: "stat_raises (log lv msg w) = stat_raises w"
  by (simp add: log_def)

lemma sent_logged [simp]: "sent (snd (logged rw)) = sent (snd rw)"
  by (auto simp: logged_def split: prod.splits sum.splits)

lemma fs_logged [simp]: "fs (snd (logged rw)) = fs (snd rw)"
  by (auto simp: logged_def split: prod.splits sum.splits)

lemma ocr_space_invalid:
  "invalid_arguments input_type opts \<Longrightarrow>
   \<exists>m. ocr_space self input_type input_value opts w = (Inl (ValueError m), w)"
proof -
  assume inv: "invalid_arguments input_type opts"
  show ?thesis
  proof (cases "input_type \<notin> set [lit ''url'', lit ''file'', lit ''base64'']")
    case True
    then show ?thesis unfolding ocr_space_def by (simp only: simp_thms if_True if_False) blast
  next
    case a: False
    show ?thesis
    proof (cases "language opts \<notin> set (map fst LANGUAGES)")
      case True
      with a show ?thesis unfolding ocr_space_def by (simp only: simp_thms if_True if_False) blast
    next
      case b: False
      show ?thesis
      proof (cases "ocr_engine opts \<notin> set [1, 2]")
        case True
        with a b show ?thesis unfolding ocr_space_def by (simp only: simp_thms if_True if_False) blast
      next
        case c: False
        with inv a b have "language opts = lit ''auto'' \<and> ocr_engine opts \<noteq> 2"
          by (auto simp: invalid_arguments_def)
        with a b c show ?thesis unfolding ocr_space_def by (simp only: simp_thms if_True if_False) blast
      qed
    qed
  qed
qed

lemma ocr_space_valid:
  "\<not> invalid_arguments input_type opts \<Longrightarrow>
   ocr_space self input_type input_value opts w =
     logged (if input_type = lit ''url'' then ocr_from_url input_value (request_params self opts) w
             else if input_type = lit ''file'' then ocr_from_file input_value (request_params self opts) w
             else ocr_from_base64 input_value (request_params self opts) w)"
proof -
  assume "\<not> invalid_arguments input_type opts"
  then have "input_type \<in> set [lit ''url'', lit ''file'', lit ''base64'']"
    and "language opts \<in> set (map fst LANGUAGES)"
    and "ocr_engine opts \<in> set [1, 2]"
    and "\<not> (language opts = lit ''auto'' \<and> ocr_engine opts \<noteq> 2)"
    by (simp_all add: invalid_arguments_def)
  then show ?thesis
    unfolding ocr_space_def Let_def by (simp only: not_not if_True if_False simp_thms)
qed


text \<open>
  C1: when the input type is none of \<open>url\<close>, \<open>file\<close>, \<open>base64\<close>, or the
  language is no key of \<open>LANGUAGES\<close>, or the engine is neither 1 nor 2, or the
  language is \<open>auto\<close> with an engine other than 2, \<open>ocr_space\<close> raises a
  \<open>ValueError\<close> and leaves the world as it was: nothing is sent, nothing is logged.
  Otherwise none of the four checks raises: the only \<open>ValueError\<close> left is the one
  of the base64 strategy for a payload that does not start with \<open>data:\<close>.
\<close>

text \<open>
  C1: when the input type is none of \<open>url\<close>, \<open>file\<close>, \<open>base64\<close>, or the
  language is no key of \<open>LANGUAGES\<close>, or the engine is neither 1 nor 2, or the
  language is \<open>auto\<close> with an engine other than 2, \<open>ocr_space\<close> raises a
  \<open>ValueError\<close> and leaves the world as it was: nothing is sent, nothing is logged.
  Otherwise none of the four checks raises: the only \<open>ValueError\<close> left is the one
  of the base64 strategy for a payload that does not start with \<open>data:\<close>.
\<close>

theorem ocr_space_validation:
  "(invalid_arguments input_type opts \<longrightarrow>
      (\<exists>m. ocr_space self input_type input_value opts w = (Inl (ValueError m), w))) \<and>
   (\<not> invalid_arguments input_type opts \<longrightarrow>
      (\<forall>m. fst (ocr_space self input_type input_value opts w) = Inl (ValueError m) \<longrightarrow>
         input_type = lit ''base64'' \<and> take 5 input_value \<noteq> lit ''data:'' \<and>
         m = lit ''Base64 string must include data URI prefix (e.g., data:image/jpeg;base64,...)''))"
proof -
  have valid: "input_type = lit ''base64'' \<and> take 5 input_value \<noteq> lit ''data:'' \<and>
         m = lit ''Base64 string must include data URI prefix (e.g., data:image/jpeg;base64,...)''"
    if v: "\<not> invalid_arguments input_type opts"
      and e: "fst (ocr_space self input_type input_value opts w) = Inl (ValueError m)" for m
  proof -
    let ?params = "request_params self opts"
    have url: "fst (ocr_from_url input_value ?params w) \<noteq> Inl (ValueError m)"
      by (simp add: ocr_from_url_def Let_def checked_json_no_ValueError)
    have fil: "fst (ocr_from_file input_value ?params w) \<noteq> Inl (ValueError m)"
      by (auto simp: ocr_from_file_def path_exists_def Let_def checked_json_no_ValueError
          split: option.splits node.splits)
    have b64: "fst (ocr_from_base64 input_value ?params w) \<noteq> Inl (ValueError m)"
      if "take 5 input_value = lit ''data:''"
      using that by (simp add: ocr_from_base64_def Let_def checked_json_no_ValueError)
    have msg: "m = lit ''Base64 string must include data URI prefix (e.g., data:image/jpeg;base64,...)''"
      if "take 5 input_value \<noteq> lit ''data:''"
        and "fst (ocr_from_base64 input_value ?params w) = Inl (ValueError m)"
      using that by (simp add: ocr_from_base64_def)
    from e have "fst (if input_type = lit ''url'' then ocr_from_url input_value ?params w
             else if input_type = lit ''file'' then ocr_from_file input_value ?params w
             else ocr_from_base64 input_value ?params w) = Inl (ValueError m)"
      by (simp add: ocr_space_valid [OF v])
    with url fil b64 msg v show ?thesis
      by (cases "take 5 input_value = lit ''data:''")
         (auto simp: invalid_arguments_def split: if_splits)
  qed
  show ?thesis
    using ocr_space_invalid [of input_type opts self input_value w] valid by blast
qed

theorem ocr_space_validation_witness:
  "invalid_arguments (lit ''url'') (default_options\<lparr>language := lit ''xx''\<rparr>) \<and>
   (\<exists>m. ocr_space demo_client (lit ''url'') (lit ''http://x/a.png'')
          (default_options\<lparr>language := lit ''xx''\<rparr>) quiet_world
        = (Inl (ValueError m), quiet_world)) \<and>
   invalid_arguments (lit ''url'') (default_options\<lparr>language := lit ''auto''\<rparr>) \<and>
   (\<exists>m. ocr_space demo_client (lit ''url'') (lit ''http://x/a.png'')
          (default_options\<lparr>language := lit ''auto''\<rparr>) quiet_world
        = (Inl (ValueError m), quiet_world)) \<and>
   \<not> invalid_arguments (lit ''url'') default_options \<and>
   (\<forall>m. fst (ocr_space demo_client (lit ''url'') (lit ''http://x/a.png'') default_options
             quiet_world) \<noteq> Inl (ValueError m))"
proof -
  have a: "invalid_arguments (lit ''url'') (default_options\<lparr>language := lit ''xx''\<rparr>)"
    by (simp add: invalid_arguments_def default_options_def LANGUAGES_def)
  have b: "invalid_arguments (lit ''url'') (default_options\<lparr>language := lit ''auto''\<rparr>)"
    by (simp add: invalid_arguments_def default_options_def LANGUAGES_def)
  have c: "\<not> invalid_arguments (lit ''url'') default_options"
    by (simp add: invalid_arguments_def default_options_def LANGUAGES_def)
  from c have "\<forall>m. fst (ocr_space demo_client (lit ''url'') (lit ''http://x/a.png'')
      default_options quiet_world) \<noteq> Inl (ValueError m)"
    using ocr_space_validation
      [of "lit ''url''" default_options demo_client "lit ''http://x/a.png''" quiet_world]
    by auto
  with a b c show ?thesis
    using ocr_space_validation
      [of "lit ''url''" "default_options\<lparr>language := lit ''xx''\<rparr>" demo_client
          "lit ''http://x/a.png''" quiet_world]
      ocr_space_validation
      [of "lit ''url''" "default_options\<lparr>language := lit ''auto''\<rparr>" demo_client
          "lit ''http://x/a.png''" quiet_world]
    by blast
qed


lemma py_eq_int_unique: "py_eq_int v a \<Longrightarrow> py_eq_int v b \<Longrightarrow> a = b"
  by (induction v a rule: py_eq_int.induct) (auto split: if_splits)

lemma not_dict_process_response:
  "\<not> is_dict r \<Longrightarrow> process_response r w = (Inl AttributeError, w)"
  by (cases r) (simp_all add: process_response_def)

text \<open>
  C2: \<open>_process_response\<close> raises a processing error exactly when the response
  is flagged \<open>IsErroredOnProcessing\<close> or its \<open>OCRExitCode\<close> equals 3 or 4. A
  flagged response raises the error that carries \<open>ErrorMessage\<close> and
  \<open>ErrorDetails\<close>; without the flag, exit code 3 raises
  \<open>All OCR processing failed\<close> and 4 raises \<open>Fatal OCR error occurred\<close>; exit
  code 2 raises nothing, the response is returned and a warning is logged. Every
  strategy passes the JSON body of a response whose status is no error to it.
\<close>

text \<open>
  C2: \<open>_process_response\<close> raises a processing error exactly when the response
  is flagged \<open>IsErroredOnProcessing\<close> or its \<open>OCRExitCode\<close> equals 3 or 4. A
  flagged response raises the error that carries \<open>ErrorMessage\<close> and
  \<open>ErrorDetails\<close>; without the flag, exit code 3 raises
  \<open>All OCR processing failed\<close> and 4 raises \<open>Fatal OCR error occurred\<close>; exit
  code 2 raises nothing, the response is returned and a warning is logged. Every
  strategy passes the JSON body of a response whose status is no error to it.
\<close>

theorem process_response_errors:
  "(is_processing_error (fst (process_response r w)) \<longleftrightarrow>
      flagged r \<or> exit_code_is r 3 \<or> exit_code_is r 4) \<and>
   (flagged r \<longrightarrow>
      process_response r w =
        (Inl (ProcessingError (get_or r (lit ''ErrorMessage'') (PStr (lit ''Unknown error'')))
                              (get_or r (lit ''ErrorDetails'') (PStr []))), w)) \<and>
   (\<not> flagged r \<and> exit_code_is r 3 \<longrightarrow>
      process_response r w = (Inl (PyException (lit ''All OCR processing failed'')), w)) \<and>
   (\<not> flagged r \<and> exit_code_is r 4 \<longrightarrow>
      process_response r w = (Inl (PyException (lit ''Fatal OCR error occurred'')), w)) \<and>
   (\<not> flagged r \<and> exit_code_is r 2 \<longrightarrow>
      process_response r w =
        (Inr r,
         log INFO (lit ''OCR completed in {processing_time}ms'')
           (log WARNING (lit ''Partial OCR success - some pages may have failed'') w))) \<and>
   (\<not> (400 \<le> status_code resp \<and> status_code resp < 600) \<and> json_body resp = Some r \<longrightarrow>
      checked_json (Inr resp, w) = process_response r w)"
proof (cases "is_dict r")
  case False
  then show ?thesis
    by (simp add: not_dict_process_response flagged_def exit_code_is_def checked_json_def
        raise_for_status_def response_json_def)
next
  case d: True
  have g: "py_get r k dflt = Inr (get_or r k dflt)" for k dflt
    using d by (rule py_get_get_or)
  let ?code = "get_or r (lit ''OCRExitCode'') (PInt 0)"
  have ex: "\<not> (py_eq_int ?code 3 \<and> py_eq_int ?code 4)"
    "py_eq_int ?code 2 \<Longrightarrow> \<not> py_eq_int ?code 3 \<and> \<not> py_eq_int ?code 4"
    using py_eq_int_unique [of ?code 3 4] py_eq_int_unique [of ?code 2 3]
      py_eq_int_unique [of ?code 2 4] by auto
  show ?thesis
  proof (cases "flagged r")
    case True
    with d show ?thesis
      by (simp add: process_response_def g flagged_def checked_json_def raise_for_status_def
          response_json_def)
  next
    case False
    with d ex show ?thesis
      by (auto simp: process_response_def g flagged_def exit_code_is_def Let_def checked_json_def
          raise_for_status_def response_json_def)
  qed
qed

theorem process_response_errors_witness:
  "flagged errored_response \<and>
   process_response errored_response quiet_world =
     (Inl (ProcessingError (PList [PStr (lit ''Unable to recognize the file type'')])
                           (PStr (lit ''E216''))), quiet_world) \<and>
   \<not> flagged (exit_code_response 3) \<and> exit_code_is (exit_code_response 3) 3 \<and>
   process_response (exit_code_response 3) quiet_world =
     (Inl (PyException (lit ''All OCR processing failed'')), quiet_world) \<and>
   \<not> flagged (exit_code_response 4) \<and> exit_code_is (exit_code_response 4) 4 \<and>
   process_response (exit_code_response 4) quiet_world =
     (Inl (PyException (lit ''Fatal OCR error occurred'')), quiet_world) \<and>
   \<not> flagged (exit_code_response 2) \<and> exit_code_is (exit_code_response 2) 2 \<and>
   fst (process_response (exit_code_response 2) quiet_world) = Inr (exit_code_response 2) \<and>
   logs (snd (process_response (exit_code_response 2) quiet_world)) =
     [(WARNING, lit ''Partial OCR success - some pages may have failed''),
      (INFO, lit ''OCR completed in {processing_time}ms'')] \<and>
   json_body empty_reply = Some (PDict []) \<and>
   checked_json (Inr empty_reply, quiet_world) = process_response (PDict []) quiet_world"
proof -
  have f: "flagged errored_response"
    and e1: "get_or errored_response (lit ''ErrorMessage'') (PStr (lit ''Unknown error''))
             = PList [PStr (lit ''Unable to recognize the file type'')]"
    and e2: "get_or errored_response (lit ''ErrorDetails'') (PStr []) = PStr (lit ''E216'')"
    by (simp_all add: errored_response_def flagged_def)
  have c: "\<not> flagged (exit_code_response n)" "exit_code_is (exit_code_response n) n" for n
    by (simp_all add: exit_code_response_def flagged_def exit_code_is_def)
  have r: "\<not> (400 \<le> status_code empty_reply \<and> status_code empty_reply < 600)"
    "json_body empty_reply = Some (PDict [])"
    by (simp_all add: empty_reply_def)
  have l: "logs quiet_world = []"
    by (simp add: quiet_world_def)
  note t = process_response_errors [of _ quiet_world empty_reply]
  from f e1 e2 c r l t [of errored_response] t [of "exit_code_response 3"]
    t [of "exit_code_response 4"] t [of "exit_code_response 2"] t [of "PDict []"]
  show ?thesis
    by (simp add: log_def)
qed

lemma http_scheme_endpoints [simp]:
  "has_http_scheme POST_ENDPOINT" "has_http_scheme GET_ENDPOINT"
  by (simp_all add: has_http_scheme_def POST_ENDPOINT_def GET_ENDPOINT_def lower_def
      is_space_def lit_def)

lemma sent_process_response [simp]: "sent (snd (process_response v w)) = sent w"
  by (auto simp: process_response_def Let_def split: sum.splits)

lemma fs_process_response [simp]: "fs (snd (process_response v w)) = fs w"
  by (auto simp: process_response_def Let_def split: sum.splits)

lemma sent_checked_json [simp]: "sent (snd (checked_json rw)) = sent (snd rw)"
  by (auto simp: checked_json_def split: prod.splits sum.splits)


lemma ocr_space_sent_invalid:
  "invalid_arguments input_type opts \<Longrightarrow>
   snd (ocr_space self input_type input_value opts w) = w"
  using ocr_space_invalid [of input_type opts self input_value w] by auto




lemma ocr_from_file_missing:
  "fs w file_path = None \<Longrightarrow>
   ocr_from_file file_path params w =
     (if stat_raises w file_path then Inl OSError
      else Inl (FileNotFoundError (path_str file_path)), w)"
  by (simp add: ocr_from_file_def path_exists_def)

text \<open>
  C6, amended: for a path at which the process finds no entry, the file strategy
  raises \<open>FileNotFoundError\<close>, naming \<open>str(Path(p))\<close>, when the existence check
  reports that there is none, and the \<open>OSError\<close> of the existence check when that
  check itself fails; either way the world is as it was. \<open>ocr_space\<close> with input
  type \<open>file\<close> sends no request for such a path; with options that pass its four
  checks (the defaults do) it raises the error of the strategy, and with other options
  the \<open>ValueError\<close> of the checks.
\<close>

theorem missing_file_errors:
  "fs w file_path = None \<Longrightarrow>
   ocr_from_file file_path params w =
     (if stat_raises w file_path then Inl OSError
      else Inl (FileNotFoundError (path_str file_path)), w) \<and>
   sent (snd (ocr_space self (lit ''file'') file_path opts w)) = sent w \<and>
   (invalid_arguments (lit ''file'') opts \<longrightarrow>
      (\<exists>m. fst (ocr_space self (lit ''file'') file_path opts w) = Inl (ValueError m))) \<and>
   (\<not> invalid_arguments (lit ''file'') opts \<and> \<not> stat_raises w file_path \<longrightarrow>
      fst (ocr_space self (lit ''file'') file_path opts w)
        = Inl (FileNotFoundError (path_str file_path))) \<and>
   (\<not> invalid_arguments (lit ''file'') opts \<and> stat_raises w file_path \<longrightarrow>
      fst (ocr_space self (lit ''file'') file_path opts w) = Inl OSError)"
proof -
  assume nf: "fs w file_path = None"
  note f = ocr_from_file_missing [OF nf]
  show ?thesis
  proof (cases "invalid_arguments (lit ''file'') opts")
    case True
    with f show ?thesis
      using ocr_space_invalid [OF True, of self file_path w]
      by (auto simp: ocr_space_sent_invalid)
  next
    case False
    with f show ?thesis by (simp add: ocr_space_valid [OF False])
  qed
qed

theorem missing_file_errors_witness:
  "fs quiet_world (lit ''./missing.png'') = None \<and>
   \<not> invalid_arguments (lit ''file'') default_options \<and>
   \<not> stat_raises quiet_world (lit ''./missing.png'') \<and>
   fst (ocr_space demo_client (lit ''file'') (lit ''./missing.png'') default_options quiet_world)
     = Inl (FileNotFoundError (lit ''missing.png'')) \<and>
   sent (snd (ocr_space demo_client (lit ''file'') (lit ''./missing.png'') default_options
                quiet_world)) = [] \<and>
   fs long_name_world long_name = None \<and> stat_raises long_name_world long_name \<and>
   fst (ocr_space demo_client (lit ''file'') long_name default_options long_name_world)
     = Inl OSError \<and>
   sent (snd (ocr_space demo_client (lit ''file'') long_name default_options
                long_name_world)) = [] \<and>
   invalid_arguments (lit ''file'') (default_options\<lparr>ocr_engine := 3\<rparr>) \<and>
   (\<exists>m. fst (ocr_space demo_client (lit ''file'') (lit ''./missing.png'')
             (default_options\<lparr>ocr_engine := 3\<rparr>) quiet_world) = Inl (ValueError m))"
proof -
  have nf: "fs quiet_world (lit ''./missing.png'') = None"
    and ns: "\<not> stat_raises quiet_world (lit ''./missing.png'')"
    and em: "sent quiet_world = []"
    by (simp_all add: quiet_world_def)
  have nf': "fs long_name_world long_name = None"
    and st: "stat_raises long_name_world long_name"
    and em': "sent long_name_world = []"
    by (simp_all add: long_name_world_def quiet_world_def long_name_def)
  have v: "\<not> invalid_arguments (lit ''file'') default_options"
    and i: "invalid_arguments (lit ''file'') (default_options\<lparr>ocr_engine := 3\<rparr>)"
    by (simp_all add: invalid_arguments_def default_options_def LANGUAGES_def)
  have ps: "path_str (lit ''./missing.png'') = lit ''missing.png''"
    by (simp add: path_str_def lit_def)
  from nf ns em v ps missing_file_errors [OF nf, of "[]" demo_client default_options]
  have a: "fst (ocr_space demo_client (lit ''file'') (lit ''./missing.png'') default_options
                  quiet_world) = Inl (FileNotFoundError (lit ''missing.png''))"
    "sent (snd (ocr_space demo_client (lit ''file'') (lit ''./missing.png'') default_options
                quiet_world)) = []"
    by simp_all
  from nf' st em' v missing_file_errors [OF nf', of "[]" demo_client default_options]
  have b: "fst (ocr_space demo_client (lit ''file'') long_name default_options long_name_world)
             = Inl OSError"
    "sent (snd (ocr_space demo_client (lit ''file'') long_name default_options
                long_name_world)) = []"
    by simp_all
  from i missing_file_errors [OF nf, of "[]" demo_client "default_options\<lparr>ocr_engine := 3\<rparr>"]
  have c: "\<exists>m. fst (ocr_space demo_client (lit ''file'') (lit ''./missing.png'')
             (default_options\<lparr>ocr_engine := 3\<rparr>) quiet_world) = Inl (ValueError m)"
    by blast
  from nf ns v a nf' st b i c show ?thesis by blast
qed

text \<open>
  C6, as stated: every path that is not on disk gives \<open>FileNotFoundError\<close>. A
  name of 304 characters is on no disk, and up to Python 3.12 \<open>Path.exists()\<close>
  raises the \<open>OSError\<close> of \<open>os.stat\<close> for it (name too long), which leaves
  \<open>ocr_space\<close> in place of the \<open>FileNotFoundError\<close>.
\<close>

theorem missing_file_long_name_counterexample:
  "fs long_name_world long_name = None \<and>
   \<not> invalid_arguments (lit ''file'') default_options \<and>
   fst (ocr_space demo_client (lit ''file'') long_name default_options long_name_world)
     = Inl OSError"
proof -
  have v: "\<not> invalid_arguments (lit ''file'') default_options"
    by (simp add: invalid_arguments_def default_options_def LANGUAGES_def)
  have "fs long_name_world long_name = None" "stat_raises long_name_world long_name"
    by (simp_all add: long_name_world_def quiet_world_def long_name_def)
  with v show ?thesis
    by (simp add: ocr_space_valid [OF v] ocr_from_file_def path_exists_def)
qed

text \<open>
  C7: on a response without the field \<open>SearchablePDFURL\<close>,
  \<open>download_searchable_pdf\<close> returns \<open>False\<close> and changes nothing but the log:
  no request, no file. It never raises. It returns \<open>True\<close> exactly when the field
  holds a non-empty string that the HTTP library can send to, the request for it is
  answered with a status that is no error, and the destination is opened and written
  in full; the destination then holds the fetched bytes. In every other case, a failed
  fetch or a failed write among them, it returns \<open>False\<close>.
\<close>

theorem download_searchable_pdf_result:
  "(map_of kvs (lit ''SearchablePDFURL'') = None \<longrightarrow>
      download_searchable_pdf (PDict kvs) output_path w =
        (Inr False, log WARNING (lit ''No searchable PDF URL found in response'') w)) \<and>
   (\<exists>b. fst (download_searchable_pdf (PDict kvs) output_path w) = Inr b) \<and>
   (fst (download_searchable_pdf (PDict kvs) output_path w) = Inr True \<longleftrightarrow>
      (\<exists>u resp. map_of kvs (lit ''SearchablePDFURL'') = Some (PStr u) \<and> u \<noteq> [] \<and>
         has_http_scheme u \<and> remote w (HttpGet u [] 60) = Answer resp \<and>
         \<not> (400 \<le> status_code resp \<and> status_code resp < 600) \<and>
         write_result w output_path (content resp) = Written)) \<and>
   (fst (download_searchable_pdf (PDict kvs) output_path w) = Inr True \<longrightarrow>
      (\<exists>u resp. map_of kvs (lit ''SearchablePDFURL'') = Some (PStr u) \<and>
         remote w (HttpGet u [] 60) = Answer resp \<and>
         fs (snd (download_searchable_pdf (PDict kvs) output_path w)) =
           (fs w)(output_path \<mapsto> File (content resp))))"
proof (cases "map_of kvs (lit ''SearchablePDFURL'')")
  case None
  then show ?thesis
    by (auto simp: download_searchable_pdf_def)
next
  case (Some pdf_url)
  show ?thesis
  proof (cases "truthy pdf_url")
    case False
    with Some show ?thesis
      by (auto simp: download_searchable_pdf_def)
  next
    case t: True
    show ?thesis
    proof (cases pdf_url)
      case (PStr u)
      with Some t show ?thesis
        by (auto simp: download_searchable_pdf_def Let_def requests_send_def
            raise_for_status_def split: outcome.splits write_outcome.splits)
    qed (use Some t in \<open>auto simp: download_searchable_pdf_def Let_def\<close>)
  qed
qed

theorem download_searchable_pdf_result_witness:
  "download_searchable_pdf (PDict []) (lit ''out.pdf'') pdf_world =
     (Inr False, log WARNING (lit ''No searchable PDF URL found in response'') pdf_world) \<and>
   fst (download_searchable_pdf pdf_response (lit ''out.pdf'') pdf_world) = Inr True \<and>
   fs (snd (download_searchable_pdf pdf_response (lit ''out.pdf'') pdf_world)) (lit ''out.pdf'')
     = Some (File [0x25, 0x50, 0x44, 0x46]) \<and>
   fst (download_searchable_pdf pdf_response (lit ''out.pdf'')
          (pdf_world\<lparr>write_result := (\<lambda>p data. OpenFails)\<rparr>)) = Inr False \<and>
   fst (download_searchable_pdf pdf_response (lit ''out.pdf'')
          (pdf_world\<lparr>write_result := (\<lambda>p data. WriteFails [0x25])\<rparr>)) = Inr False \<and>
   fst (download_searchable_pdf pdf_response (lit ''out.pdf'')
          (pdf_world\<lparr>remote := (\<lambda>req. NoAnswer)\<rparr>)) = Inr False \<and>
   fst (download_searchable_pdf pdf_response (lit ''out.pdf'')
          (pdf_world\<lparr>remote := (\<lambda>req. Answer (pdf_reply\<lparr>status_code := 404\<rparr>))\<rparr>))
     = Inr False \<and>
   fst (download_searchable_pdf no_url_response (lit ''out.pdf'')
          (pdf_world\<lparr>remote := (\<lambda>req. Answer pdf_reply)\<rparr>)) = Inr False"
proof -
  let ?key = "lit ''SearchablePDFURL''"
  let ?kvs = "[(?key, PStr (lit ''https://x/a.pdf''))]"
  let ?bad = "[(?key, PStr (lit ''not a url''))]"
  let ?out = "lit ''out.pdf''"
  have none: "map_of [] ?key = (None :: pyval option)"
    by simp
  have url: "map_of ?kvs ?key = Some (PStr (lit ''https://x/a.pdf''))"
    "lit ''https://x/a.pdf'' \<noteq> []" "has_http_scheme (lit ''https://x/a.pdf'')"
    by (simp_all add: has_http_scheme_def lower_def is_space_def lit_def)
  have bad: "map_of ?bad ?key = Some (PStr (lit ''not a url''))"
    "\<not> has_http_scheme (lit ''not a url'')"
    by (simp_all add: has_http_scheme_def lower_def is_space_def lit_def)
  have w: "remote pdf_world (HttpGet (lit ''https://x/a.pdf'') [] 60) = Answer pdf_reply"
    "\<not> (400 \<le> status_code pdf_reply \<and> status_code pdf_reply < 600)"
    "write_result pdf_world ?out (content pdf_reply) = Written"
    "content pdf_reply = [0x25, 0x50, 0x44, 0x46]"
    by (simp_all add: pdf_world_def quiet_world_def pdf_reply_def)
  have a: "download_searchable_pdf (PDict []) ?out pdf_world =
     (Inr False, log WARNING (lit ''No searchable PDF URL found in response'') pdf_world)"
    using download_searchable_pdf_result [of "[]" ?out pdf_world] none by blast
  have b: "fst (download_searchable_pdf (PDict ?kvs) ?out pdf_world) = Inr True"
    using download_searchable_pdf_result [of ?kvs ?out pdf_world] url w by blast
  then have c: "fs (snd (download_searchable_pdf (PDict ?kvs) ?out pdf_world)) ?out
     = Some (File [0x25, 0x50, 0x44, 0x46])"
    using download_searchable_pdf_result [of ?kvs ?out pdf_world] url w by auto
  have nb: "fst (download_searchable_pdf (PDict kvs) ?out w') \<noteq> Inr True \<Longrightarrow>
      fst (download_searchable_pdf (PDict kvs) ?out w') = Inr False" for w' kvs
    using download_searchable_pdf_result [of kvs ?out w'] by auto
  have d: "fst (download_searchable_pdf (PDict ?kvs) ?out
          (pdf_world\<lparr>write_result := (\<lambda>p data. OpenFails)\<rparr>)) = Inr False"
    using download_searchable_pdf_result
      [of ?kvs ?out "pdf_world\<lparr>write_result := (\<lambda>p data. OpenFails)\<rparr>"]
    by (intro nb) simp
  have e: "fst (download_searchable_pdf (PDict ?kvs) ?out
          (pdf_world\<lparr>write_result := (\<lambda>p data. WriteFails [0x25])\<rparr>)) = Inr False"
    using download_searchable_pdf_result
      [of ?kvs ?out "pdf_world\<lparr>write_result := (\<lambda>p data. WriteFails [0x25])\<rparr>"]
    by (intro nb) simp
  have f: "fst (download_searchable_pdf (PDict ?kvs) ?out
          (pdf_world\<lparr>remote := (\<lambda>req. NoAnswer)\<rparr>)) = Inr False"
    using download_searchable_pdf_result [of ?kvs ?out "pdf_world\<lparr>remote := (\<lambda>req. NoAnswer)\<rparr>"]
    by (intro nb) simp
  have g: "fst (download_searchable_pdf (PDict ?kvs) ?out
          (pdf_world\<lparr>remote := (\<lambda>req. Answer (pdf_reply\<lparr>status_code := 404\<rparr>))\<rparr>)) = Inr False"
    using download_searchable_pdf_result
      [of ?kvs ?out "pdf_world\<lparr>remote := (\<lambda>req. Answer (pdf_reply\<lparr>status_code := 404\<rparr>))\<rparr>"]
    by (intro nb) simp
  have h: "fst (download_searchable_pdf (PDict ?bad) ?out
          (pdf_world\<lparr>remote := (\<lambda>req. Answer pdf_reply)\<rparr>)) = Inr False"
    using download_searchable_pdf_result
      [of ?bad ?out "pdf_world\<lparr>remote := (\<lambda>req. Answer pdf_reply)\<rparr>"] bad
    by (intro nb) simp
  from a b c d e f g h show ?thesis
    by (simp add: pdf_response_def no_url_response_def)
qed

section \<open>The base64 round trip\<close>

lemma b64_char_value:
  assumes "i < 64"
  shows "b64_char i =
     (if i < 26 then 65 + i else if i < 52 then 71 + i else if i < 62 then i - 4
      else if i = 62 then 43 else 47)"
proof -
  define capitals where "capitals = map (\<lambda>j. 65 + j) [0..<26]"
  define smalls where "smalls = map (\<lambda>j. 97 + j) [0..<26]"
  define digits where "digits = map (\<lambda>j. 48 + j) [0..<10]"
  have alphabet: "b64_alphabet = capitals @ smalls @ digits @ [43, 47]"
    by (simp add: b64_alphabet_def lit_def capitals_def smalls_def digits_def upt_rec)
  have len [simp]: "length capitals = 26" "length smalls = 26" "length digits = 10"
    by (simp_all add: capitals_def smalls_def digits_def)
  have nth: "j < 26 \<Longrightarrow> capitals ! j = 65 + j" "j < 26 \<Longrightarrow> smalls ! j = 97 + j"
    "j < 10 \<Longrightarrow> digits ! j = 48 + j" for j
    unfolding capitals_def smalls_def digits_def by (simp_all del: upt_rec_numeral)
  consider "i < 26" | "26 \<le> i" "i < 52" | "52 \<le> i" "i < 62" | "i = 62" | "i = 63"
    using assms by linarith
  then show ?thesis
  proof cases
    case 1
    then show ?thesis
      by (simp add: b64_char_def alphabet nth_append nth)
  next
    case 2
    then have "i - 26 < 26" by simp
    with 2 show ?thesis
      by (simp add: b64_char_def alphabet nth_append nth)
  next
    case 3
    then have "i - 26 - 26 < 10" by simp
    with 3 show ?thesis
      by (simp add: b64_char_def alphabet nth_append nth)
  next
    case 4
    then show ?thesis
      by (simp add: b64_char_def alphabet nth_append)
  next
    case 5
    then show ?thesis
      by (simp add: b64_char_def alphabet nth_append)
  qed
qed

lemma b64_char_index:
  assumes "i < 64"
  shows "b64_index (b64_char i) = Some i" and "b64_char i \<noteq> 61"
  using assms by (auto simp: b64_char_value b64_index_def)

lemma sextets_bound:
  fixes a b c :: nat
  assumes "a < 256" "b < 256" "c < 256"
  shows "a div 4 < 64" "(a mod 4) * 16 + b div 16 < 64" "(b mod 16) * 4 + c div 64 < 64"
    "c mod 64 < 64" "(a mod 4) * 16 < 64" "(b mod 16) * 4 < 64"
  using assms by simp_all (arith+)?

lemma octets_back:
  fixes a b c :: nat
  assumes "a < 256" "b < 256" "c < 256"
  shows "(a div 4) * 4 + ((a mod 4) * 16 + b div 16) div 16 = a"
    and "(((a mod 4) * 16 + b div 16) mod 16) * 16 + ((b mod 16) * 4 + c div 64) div 4 = b"
    and "(((b mod 16) * 4 + c div 64) mod 4) * 64 + c mod 64 = c"
    and "(a div 4) * 4 + ((a mod 4) * 16) div 16 = a"
    and "(((a mod 4) * 16 + b div 16) mod 16) * 16 + ((b mod 16) * 4) div 4 = b"
  using assms by simp_all (arith+)?

lemma b64_octets_roundtrip:
  "\<forall>x\<in>set xs. x < 256 \<Longrightarrow> b64decode_octets (b64encode_octets xs) = Some xs"
proof (induction xs rule: b64encode_octets.induct)
  case 1
  then show ?case by simp
next
  case (2 a)
  then have a: "a < 256" by simp
  have "a div 4 < 64" "(a mod 4) * 16 < 64"
    using a by simp_all
  moreover have "(a div 4) * 4 + ((a mod 4) * 16) div 16 = a"
    by simp
  ultimately show ?case
    by (simp add: b64_char_index)
next
  case (3 a b)
  then have ab: "a < 256" "b < 256" by simp_all
  note bd = sextets_bound [OF ab ab(1)] and ob = octets_back [OF ab ab(1)]
  from bd ob show ?case
    by (simp add: b64_char_index)
next
  case (4 a b c rest)
  then have abc: "a < 256" "b < 256" "c < 256" and rest: "\<forall>x\<in>set rest. x < 256"
    by simp_all
  note bd = sextets_bound [OF abc] and ob = octets_back [OF abc]
  from bd ob "4.IH" [OF rest] show ?case
    by (simp add: b64_char_index)
qed

lemma b64_roundtrip: "b64decode (b64encode data) = Some data"
proof -
  have "unat x < 256" for x :: "8 word"
    using unsigned_less [of x, where 'a = nat] by simp
  then have "\<forall>x\<in>set (map unat data). x < 256"
    by auto
  then show ?thesis
    by (simp add: b64decode_def b64encode_def b64_octets_roundtrip comp_def)
qed

lemma mime_type_no_comma: "44 \<notin> set (mime_type_of extension)"
  by (auto simp: mime_type_of_def lit_def split: if_splits)

lemma data_uri_payload_of:
  "44 \<notin> set mime \<Longrightarrow>
   data_uri_payload (lit ''data:'' @ mime @ lit '';base64,'' @ payload) = payload"
  by (simp add: data_uri_payload_def lit_def dropWhile_append)

text \<open>
  C8: for every path that holds a file, \<open>image_to_base64\<close> returns a data URI
  \<open>data:<mime>;base64,<payload>\<close>, and decoding the payload, what follows the
  prefix, gives back the bytes of the file.
\<close>

theorem image_to_base64_roundtrip:
  "fs w image_path = Some (File data) \<Longrightarrow>
   (\<exists>uri. image_to_base64 image_path w = Inr uri \<and>
      uri = lit ''data:'' @ mime_type_of (lower (path_suffix image_path)) @ lit '';base64,'' @
            data_uri_payload uri \<and>
      b64decode (data_uri_payload uri) = Some data)"
  by (simp add: image_to_base64_def path_exists_def Let_def data_uri_payload_of
      mime_type_no_comma b64_roundtrip)

theorem image_to_base64_roundtrip_witness:
  "fs png_world (lit ''scans/page.PNG'') = Some (File [0x89, 0x50, 0x4E, 0x47]) \<and>
   image_to_base64 (lit ''scans/page.PNG'') png_world
     = Inr (lit ''data:image/png;base64,iVBORw=='') \<and>
   data_uri_payload (lit ''data:image/png;base64,iVBORw=='') = lit ''iVBORw=='' \<and>
   b64decode (lit ''iVBORw=='') = Some [0x89, 0x50, 0x4E, 0x47]"
proof -
  have f: "fs png_world (lit ''scans/page.PNG'') = Some (File [0x89, 0x50, 0x4E, 0x47])"
    by (simp add: png_world_def)
  have u: "image_to_base64 (lit ''scans/page.PNG'') png_world
     = Inr (lit ''data:image/png;base64,iVBORw=='')"
    by (simp add: image_to_base64_def path_exists_def png_world_def Let_def path_suffix_def
        path_name_def
        lower_def mime_type_of_def b64encode_def b64_char_def b64_alphabet_def lit_def)
  have p: "data_uri_payload (lit ''data:image/png;base64,iVBORw=='') = lit ''iVBORw==''"
    by (simp add: data_uri_payload_def lit_def)
  from image_to_base64_roundtrip [OF f] u p f show ?thesis
    by simp
qed

end
